theory Spec2Isabelle
  imports Complex_Main
begin

section \<open>Python floats and exceptions\<close>

text \<open>
  The cubic equation-of-state core of \<^verbatim>\<open>thermo/eos.py\<close> (class \<^verbatim>\<open>GCEOS\<close>) computes with
  Python floats. A float is modelled by the real number it denotes, or by one of the three
  special values: the source itself stores \<^verbatim>\<open>inf\<close> (in \<^verbatim>\<open>derivatives_and_departures\<close>)
  and compares values that may be NaN. Rounding, overflow of a finite result and the sign of
  zero are outside the model: every finite operation is exact.
\<close>

datatype pyfloat = Fin real | PInf | NInf | NaN

datatype error =
    ZeroDivisionError
  | ValueError string
  | NegativePressure pyfloat
  | TypeError
  | OverflowError
  | IndexError
  | AttributeError
  | Exception string
  | NoAcceptableRoots "(pyfloat \<times> pyfloat) list" "pyfloat option" "pyfloat option"
      "pyfloat list" "pyfloat list"
  | SolverError string

type_synonym 'a result = "error + 'a"

text \<open>Sequencing: an exception raised by the first computation ends the whole.\<close>

definition bind_result :: "'a result \<Rightarrow> ('a \<Rightarrow> 'b result) \<Rightarrow> 'b result" where
  "bind_result m f = (case m of Inl e \<Rightarrow> Inl e | Inr x \<Rightarrow> f x)"

text \<open>\<^verbatim>\<open>try: m  except ZeroDivisionError: d\<close>\<close>

definition except_ZeroDivisionError :: "'a result \<Rightarrow> 'a \<Rightarrow> 'a result" where
  "except_ZeroDivisionError m d = (case m of Inl ZeroDivisionError \<Rightarrow> Inr d | _ \<Rightarrow> m)"

instantiation pyfloat :: "{plus, minus, uminus, times, abs, ord}"
begin

fun uminus_pyfloat :: "pyfloat \<Rightarrow> pyfloat" where
  "uminus_pyfloat (Fin x) = Fin (- x)"
| "uminus_pyfloat PInf = NInf"
| "uminus_pyfloat NInf = PInf"
| "uminus_pyfloat NaN = NaN"

fun plus_pyfloat :: "pyfloat \<Rightarrow> pyfloat \<Rightarrow> pyfloat" where
  "plus_pyfloat (Fin x) (Fin y) = Fin (x + y)"
| "plus_pyfloat NaN _ = NaN"
| "plus_pyfloat _ NaN = NaN"
| "plus_pyfloat PInf NInf = NaN"
| "plus_pyfloat NInf PInf = NaN"
| "plus_pyfloat PInf _ = PInf"
| "plus_pyfloat NInf _ = NInf"
| "plus_pyfloat _ PInf = PInf"
| "plus_pyfloat _ NInf = NInf"

definition minus_pyfloat :: "pyfloat \<Rightarrow> pyfloat \<Rightarrow> pyfloat" where
  "minus_pyfloat x y = x + (- y)"

fun times_pyfloat :: "pyfloat \<Rightarrow> pyfloat \<Rightarrow> pyfloat" where
  "times_pyfloat (Fin x) (Fin y) = Fin (x * y)"
| "times_pyfloat NaN _ = NaN"
| "times_pyfloat _ NaN = NaN"
| "times_pyfloat (Fin x) PInf = (if x = 0 then NaN else if 0 < x then PInf else NInf)"
| "times_pyfloat (Fin x) NInf = (if x = 0 then NaN else if 0 < x then NInf else PInf)"
| "times_pyfloat PInf (Fin y) = (if y = 0 then NaN else if 0 < y then PInf else NInf)"
| "times_pyfloat NInf (Fin y) = (if y = 0 then NaN else if 0 < y then NInf else PInf)"
| "times_pyfloat PInf PInf = PInf"
| "times_pyfloat PInf NInf = NInf"
| "times_pyfloat NInf PInf = NInf"
| "times_pyfloat NInf NInf = PInf"

fun abs_pyfloat :: "pyfloat \<Rightarrow> pyfloat" where
  "abs_pyfloat (Fin x) = Fin \<bar>x\<bar>"
| "abs_pyfloat PInf = PInf"
| "abs_pyfloat NInf = PInf"
| "abs_pyfloat NaN = NaN"

fun less_pyfloat :: "pyfloat \<Rightarrow> pyfloat \<Rightarrow> bool" where
  "less_pyfloat (Fin x) (Fin y) = (x < y)"
| "less_pyfloat NaN _ = False"
| "less_pyfloat _ NaN = False"
| "less_pyfloat _ NInf = False"
| "less_pyfloat PInf _ = False"
| "less_pyfloat NInf _ = True"
| "less_pyfloat _ PInf = True"

fun less_eq_pyfloat :: "pyfloat \<Rightarrow> pyfloat \<Rightarrow> bool" where
  "less_eq_pyfloat (Fin x) (Fin y) = (x \<le> y)"
| "less_eq_pyfloat NaN _ = False"
| "less_eq_pyfloat _ NaN = False"
| "less_eq_pyfloat NInf _ = True"
| "less_eq_pyfloat _ PInf = True"
| "less_eq_pyfloat _ NInf = False"
| "less_eq_pyfloat PInf _ = False"

instance ..

end

text \<open>Python's \<^verbatim>\<open>==\<close> on floats: NaN equals nothing, not even itself.\<close>

definition py_eq :: "pyfloat \<Rightarrow> pyfloat \<Rightarrow> bool" where
  "py_eq x y = (x \<noteq> NaN \<and> x = y)"

text \<open>
  Division of the quotient proper, for a divisor that is not zero, and Python's \<^verbatim>\<open>/\<close>,
  which raises \<^verbatim>\<open>ZeroDivisionError\<close> on a zero divisor whatever the dividend.
\<close>

fun quotient :: "pyfloat \<Rightarrow> pyfloat \<Rightarrow> pyfloat" where
  "quotient (Fin x) (Fin y) = Fin (x / y)"
| "quotient NaN _ = NaN"
| "quotient _ NaN = NaN"
| "quotient (Fin x) _ = Fin 0"
| "quotient PInf (Fin y) = (if 0 < y then PInf else NInf)"
| "quotient NInf (Fin y) = (if 0 < y then NInf else PInf)"
| "quotient _ _ = NaN"

definition py_div :: "pyfloat \<Rightarrow> pyfloat \<Rightarrow> pyfloat result" where
  "py_div x y = (if y = Fin 0 then Inl ZeroDivisionError else Inr (quotient x y))"

text \<open>
  The result of \<^verbatim>\<open>x**-0.5\<close>: a float, or (Python 3) a complex number when \<^verbatim>\<open>x\<close> is
  negative; a zero base raises \<^verbatim>\<open>ZeroDivisionError\<close>.
\<close>

datatype py_number = FloatValue pyfloat | ComplexValue

fun pow_neg_half :: "pyfloat \<Rightarrow> py_number result" where
  "pow_neg_half (Fin x) =
     (if x = 0 then Inl ZeroDivisionError
      else if 0 < x then Inr (FloatValue (Fin (1 / sqrt x)))
      else Inr ComplexValue)"
| "pow_neg_half PInf = Inr (FloatValue (Fin 0))"
| "pow_neg_half NInf = Inr (FloatValue (Fin 0))"
| "pow_neg_half NaN = Inr (FloatValue NaN)"

text \<open>
  \<^verbatim>\<open>cmath.atanh(x).real\<close> and \<^verbatim>\<open>cmath.log(x).real\<close> at a float argument, \<^verbatim>\<open>math.log\<close>
  and \<^verbatim>\<open>math.exp\<close>. The complex functions are defined on the whole line except at their
  poles, where they raise \<^verbatim>\<open>ValueError\<close>; \<^verbatim>\<open>math.exp\<close> raises \<^verbatim>\<open>OverflowError\<close> above the
  logarithm of the largest double.
\<close>

fun catanh_real :: "pyfloat \<Rightarrow> pyfloat result" where
  "catanh_real (Fin x) =
     (if x = 1 \<or> x = - 1 then Inl (ValueError ''math domain error'')
      else Inr (Fin (ln \<bar>(1 + x) / (1 - x)\<bar> / 2)))"
| "catanh_real PInf = Inr (Fin 0)"
| "catanh_real NInf = Inr (Fin 0)"
| "catanh_real NaN = Inr NaN"

fun clog_real :: "pyfloat \<Rightarrow> pyfloat result" where
  "clog_real (Fin x) =
     (if x = 0 then Inl (ValueError ''math domain error'') else Inr (Fin (ln \<bar>x\<bar>)))"
| "clog_real PInf = Inr PInf"
| "clog_real NInf = Inr PInf"
| "clog_real NaN = Inr NaN"

fun log_py :: "pyfloat \<Rightarrow> pyfloat result" where
  "log_py (Fin x) = (if x \<le> 0 then Inl (ValueError ''math domain error'') else Inr (Fin (ln x)))"
| "log_py PInf = Inr PInf"
| "log_py NInf = Inl (ValueError ''math domain error'')"
| "log_py NaN = Inr NaN"

fun exp_py :: "pyfloat \<Rightarrow> pyfloat result" where
  "exp_py (Fin x) = (if 709.782712893384 < x then Inl OverflowError else Inr (Fin (exp x)))"
| "exp_py PInf = Inr PInf"
| "exp_py NInf = Inr (Fin 0)"
| "exp_py NaN = Inr NaN"

text \<open>
  \<^verbatim>\<open>fluids.numerics.trunc_exp(x, trunc)\<close>: the exponential, or \<^verbatim>\<open>trunc\<close> where it overflows.
\<close>

definition trunc_exp :: "pyfloat \<Rightarrow> pyfloat \<Rightarrow> pyfloat" where
  "trunc_exp x trunc = (case exp_py x of Inl e \<Rightarrow> trunc | Inr y \<Rightarrow> y)"

section \<open>Derivatives and departure functions\<close>

text \<open>
  The gas constant \<^verbatim>\<open>R\<close> is imported from \<^verbatim>\<open>thermo.utils\<close>; it is a parameter of every
  function that reads it. The flag \<^verbatim>\<open>quick\<close> of the source selects no other code (with
  \<^verbatim>\<open>quick=False\<close> the function calls itself with the default) and is left out.
\<close>

type_synonym main_derivatives =
  "pyfloat \<times> pyfloat \<times> pyfloat \<times> pyfloat \<times> pyfloat \<times> pyfloat \<times> pyfloat \<times> pyfloat"

definition main_derivatives_and_departures ::
  "pyfloat \<Rightarrow> pyfloat \<Rightarrow> pyfloat \<Rightarrow> pyfloat \<Rightarrow> pyfloat \<Rightarrow> pyfloat \<Rightarrow> pyfloat \<Rightarrow> pyfloat \<Rightarrow>
   pyfloat \<Rightarrow> pyfloat \<Rightarrow> main_derivatives result" where
  "main_derivatives_and_departures R T P V b delta epsilon a_alpha da_alpha_dT d2a_alpha_dT2 =
     (let epsilon2 = epsilon + epsilon in
      bind_result (py_div (Fin 1) (V - b)) (\<lambda>x0.
      bind_result (py_div (Fin 1) (V * (V + delta) + epsilon)) (\<lambda>x1.
      let x3 = R * T;
          x4 = x0 * x0;
          x5 = V + V + delta;
          x6 = x1 * x1;
          x7 = a_alpha * x6;
          x8 = P * V;
          x9 = delta * delta;
          x10 = x9 - epsilon2 - epsilon2 in
      bind_result (except_ZeroDivisionError (pow_neg_half x10) (FloatValue (Fin 0))) (\<lambda>x11'.
      case x11' of
        ComplexValue \<Rightarrow>
          \<comment> \<open>\<^verbatim>\<open>x11\<close> is complex: every line up to \<^verbatim>\<open>log(x19*x19)\<close> runs, and that one
              raises \<^verbatim>\<open>TypeError\<close>\<close>
          bind_result (py_div (x3 * x0) P) (\<lambda>t1.
          bind_result (clog_real t1) (\<lambda>l1. Inl TypeError))
      | FloatValue x11 \<Rightarrow>
          let x11_half = Fin 0.5 * x11 in
          bind_result (catanh_real (x11 * x5)) (\<lambda>atanh_x.
          let x12 = Fin 2 * x11 * atanh_x;
              x14 = Fin 0.5 * x5;
              x15 = epsilon2 * x11;
              x16 = x11_half * x9;
              x17 = x5 * x6;
              dP_dT = R * x0 - da_alpha_dT * x1;
              dP_dV = x5 * x7 - x3 * x4;
              d2P_dT2 = (- d2a_alpha_dT2) * x1;
              d2P_dV2 = x7 + x3 * x4 * x0 - a_alpha * x5 * x17 * x1;
              d2P_dV2 = d2P_dV2 + d2P_dV2;
              d2P_dTdV = da_alpha_dT * x17 - R * x4;
              H_dep = x12 * (T * da_alpha_dT - a_alpha) - x3 + x8 in
          bind_result (py_div (x3 * x0) P) (\<lambda>t1.
          bind_result (clog_real t1) (\<lambda>l1.
          let S_dep = (- R) * l1 + da_alpha_dT * x12;
              x18 = x16 - x15 in
          bind_result (py_div (x14 + x18) (x14 - x18)) (\<lambda>x19.
          bind_result (log_py (x19 * x19)) (\<lambda>l19.
          let Cv_dep = T * d2a_alpha_dT2 * x11_half * l19 in
          Inr (dP_dT, dP_dV, d2P_dT2, d2P_dV2, d2P_dTdV, H_dep, S_dep, Cv_dep))))))))))"

type_synonym derivatives =
  "pyfloat \<times> pyfloat \<times> pyfloat \<times> pyfloat \<times> pyfloat \<times> pyfloat \<times>
   pyfloat \<times> pyfloat \<times> pyfloat \<times> pyfloat \<times> pyfloat \<times> pyfloat \<times>
   pyfloat \<times> pyfloat \<times> pyfloat \<times>
   pyfloat \<times> pyfloat \<times> pyfloat"

definition derivatives_and_departures ::
  "pyfloat \<Rightarrow> pyfloat \<Rightarrow> pyfloat \<Rightarrow> pyfloat \<Rightarrow> pyfloat \<Rightarrow> pyfloat \<Rightarrow> pyfloat \<Rightarrow> pyfloat \<Rightarrow>
   pyfloat \<Rightarrow> pyfloat \<Rightarrow> derivatives result" where
  "derivatives_and_departures R T P V b delta epsilon a_alpha da_alpha_dT d2a_alpha_dT2 =
     bind_result
       (main_derivatives_and_departures R T P V b delta epsilon a_alpha da_alpha_dT d2a_alpha_dT2)
       (\<lambda>(dP_dT, dP_dV, d2P_dT2, d2P_dV2, d2P_dTdV, H_dep, S_dep, Cv_dep).
      bind_result (except_ZeroDivisionError (py_div (Fin 1) dP_dV) PInf) (\<lambda>inverse_dP_dV.
      bind_result (py_div (Fin 1) dP_dT) (\<lambda>dT_dP.
      let dV_dT = (- dP_dT) * inverse_dP_dV;
          dV_dP = (- dV_dT) * dT_dP in
      bind_result (py_div (Fin 1) dV_dT) (\<lambda>dT_dV.
      let inverse_dP_dV2 = inverse_dP_dV * inverse_dP_dV;
          inverse_dP_dV3 = inverse_dP_dV * inverse_dP_dV2;
          inverse_dP_dT2 = dT_dP * dT_dP;
          inverse_dP_dT3 = inverse_dP_dT2 * dT_dP;
          d2V_dP2 = (- d2P_dV2) * inverse_dP_dV3;
          d2T_dP2 = (- d2P_dT2) * inverse_dP_dT3;
          d2T_dV2 = (- (d2P_dV2 * dP_dT - dP_dV * d2P_dTdV)) * inverse_dP_dT2
                    + (d2P_dTdV * dP_dT - dP_dV * d2P_dT2) * inverse_dP_dT3 * dP_dV;
          d2V_dT2 = (- (d2P_dT2 * dP_dV - dP_dT * d2P_dTdV)) * inverse_dP_dV2
                    + (d2P_dTdV * dP_dV - dP_dT * d2P_dV2) * inverse_dP_dV3 * dP_dT;
          d2V_dPdT = (- (d2P_dTdV * dP_dV - dP_dT * d2P_dV2)) * inverse_dP_dV3;
          d2T_dPdV = (- (d2P_dTdV * dP_dT - dP_dV * d2P_dT2)) * inverse_dP_dT3 in
      Inr (dP_dT, dP_dV, dV_dT, dV_dP, dT_dV, dT_dP,
           d2P_dT2, d2P_dV2, d2V_dT2, d2V_dP2, d2T_dV2, d2T_dP2,
           d2V_dPdT, d2P_dTdV, d2T_dPdV,
           H_dep, S_dep, Cv_dep)))))"

section \<open>The state of an equation-of-state object\<close>

text \<open>
  \<^verbatim>\<open>set_properties_from_solution\<close> stores one group of attributes per phase, suffixed
  \<^verbatim>\<open>_l\<close> or \<^verbatim>\<open>_g\<close>; a group is always written as a whole, so it is one record, and the
  object holds an optional liquid and an optional gas record (absent while the attributes do
  not exist).
\<close>

record phase_record =
  V_ph :: pyfloat
  Z_ph :: pyfloat
  beta_ph :: pyfloat
  kappa_ph :: pyfloat
  PIP_ph :: pyfloat
  Cp_minus_Cv_ph :: pyfloat
  dP_dT_ph :: pyfloat
  dP_dV_ph :: pyfloat
  dV_dT_ph :: pyfloat
  dV_dP_ph :: pyfloat
  dT_dV_ph :: pyfloat
  dT_dP_ph :: pyfloat
  d2P_dT2_ph :: pyfloat
  d2P_dV2_ph :: pyfloat
  d2V_dT2_ph :: pyfloat
  d2V_dP2_ph :: pyfloat
  d2T_dV2_ph :: pyfloat
  d2T_dP2_ph :: pyfloat
  d2V_dPdT_ph :: pyfloat
  d2P_dTdV_ph :: pyfloat
  d2T_dPdV_ph :: pyfloat
  H_dep_ph :: pyfloat
  S_dep_ph :: pyfloat
  V_dep_ph :: pyfloat
  U_dep_ph :: pyfloat
  G_dep_ph :: pyfloat
  A_dep_ph :: pyfloat
  fugacity_ph :: pyfloat
  phi_ph :: pyfloat
  Cp_dep_ph :: pyfloat
  Cv_dep_ph :: pyfloat

text \<open>
  A volume root is a Python complex number, or a float (whose imaginary part is zero):
  the pair of its real and imaginary parts.
\<close>

type_synonym root = "pyfloat \<times> pyfloat"

text \<open>
  The attributes of the object. \<^verbatim>\<open>T\<close>, \<^verbatim>\<open>P\<close> and \<^verbatim>\<open>V\<close> are the caller's
  specification, each possibly \<^verbatim>\<open>None\<close>; the coefficients are set by the constructor of the
  subclass, the three \<^verbatim>\<open>a_alpha\<close> attributes by \<^verbatim>\<open>solve\<close>.
\<close>

record gceos =
  self_T :: "pyfloat option"
  self_P :: "pyfloat option"
  self_V :: "pyfloat option"
  self_V_is_float :: bool
  self_Tc :: pyfloat
  self_Pc :: pyfloat
  self_N :: nat
  self_multicomponent :: bool
  self_Tcs :: "pyfloat list"
  self_Pcs :: "pyfloat list"
  self_b :: pyfloat
  self_delta :: pyfloat
  self_epsilon :: pyfloat
  self_a_alpha :: pyfloat
  self_da_alpha_dT :: pyfloat
  self_d2a_alpha_dT2 :: pyfloat
  self_raw_volumes :: "root list option"
  self_no_T_spec :: bool
  liquid :: "phase_record option"
  gas :: "phase_record option"
  phase :: "string option"

definition V_l :: "gceos \<Rightarrow> pyfloat option" where
  "V_l s = map_option V_ph (liquid s)"

definition V_g :: "gceos \<Rightarrow> pyfloat option" where
  "V_g s = map_option V_ph (gas s)"

section \<open>The property setter\<close>

text \<open>
  The values that \<^verbatim>\<open>set_properties_from_solution\<close> computes before it chooses the phase,
  in the order of the source: a failing line raises before the later ones run.
\<close>

definition phase_properties ::
  "pyfloat \<Rightarrow> pyfloat \<Rightarrow> pyfloat \<Rightarrow> pyfloat \<Rightarrow> pyfloat \<Rightarrow> pyfloat \<Rightarrow> pyfloat \<Rightarrow> pyfloat \<Rightarrow>
   pyfloat \<Rightarrow> pyfloat \<Rightarrow> phase_record result" where
  "phase_properties R T P V b delta epsilon a_alpha da_alpha_dT d2a_alpha_dT2 =
     bind_result
       (derivatives_and_departures R T P V b delta epsilon a_alpha da_alpha_dT d2a_alpha_dT2)
       (\<lambda>(dP_dT, dP_dV, dV_dT, dV_dP, dT_dV, dT_dP,
          d2P_dT2, d2P_dV2, d2V_dT2, d2V_dP2, d2T_dV2, d2T_dP2,
          d2V_dPdT, d2P_dTdV, d2T_dPdV,
          H_dep, S_dep, Cv_dep).
      let RT = R * T in
      bind_result (py_div (Fin 1) RT) (\<lambda>RT_inv.
      bind_result (py_div (Fin 1) P) (\<lambda>P_inv.
      bind_result (py_div (Fin 1) V) (\<lambda>V_inv.
      let Z = P * V * RT_inv;
          beta = dV_dT * V_inv;
          kappa = (- dV_dP) * V_inv;
          Cp_m_Cv = (- T) * dP_dT * dP_dT * dV_dP;
          Cp_dep = Cp_m_Cv + Cv_dep - R;
          TS_dep = T * S_dep;
          V_dep = V - RT * P_inv;
          U_dep = H_dep - P * V_dep;
          G_dep = H_dep - TS_dep;
          A_dep = U_dep - TS_dep;
          fugacity = (case exp_py (G_dep * RT_inv) of
                        Inr y \<Rightarrow> P * y
                      | Inl e \<Rightarrow> P * trunc_exp (G_dep * RT_inv) (Fin (10 ^ 308)));
          phi = fugacity * P_inv;
          PIP = V * (d2P_dTdV * dT_dP - d2P_dV2 * dV_dP) in
      Inr \<lparr>V_ph = V, Z_ph = Z, beta_ph = beta, kappa_ph = kappa,
           PIP_ph = PIP, Cp_minus_Cv_ph = Cp_m_Cv,
           dP_dT_ph = dP_dT, dP_dV_ph = dP_dV, dV_dT_ph = dV_dT,
           dV_dP_ph = dV_dP, dT_dV_ph = dT_dV, dT_dP_ph = dT_dP,
           d2P_dT2_ph = d2P_dT2, d2P_dV2_ph = d2P_dV2,
           d2V_dT2_ph = d2V_dT2, d2V_dP2_ph = d2V_dP2,
           d2T_dV2_ph = d2T_dV2, d2T_dP2_ph = d2T_dP2,
           d2V_dPdT_ph = d2V_dPdT, d2P_dTdV_ph = d2P_dTdV, d2T_dPdV_ph = d2T_dPdV,
           H_dep_ph = H_dep, S_dep_ph = S_dep, V_dep_ph = V_dep,
           U_dep_ph = U_dep, G_dep_ph = G_dep, A_dep_ph = A_dep,
           fugacity_ph = fugacity, phi_ph = phi,
           Cp_dep_ph = Cp_dep, Cv_dep_ph = Cv_dep\<rparr>))))"

text \<open>
  The setter itself: it stores the values in the liquid or in the gas attributes and returns
  the phase, \<^verbatim>\<open>'l'\<close> or \<^verbatim>\<open>'g'\<close>.
\<close>

definition set_properties_from_solution ::
  "pyfloat \<Rightarrow> gceos \<Rightarrow> pyfloat \<Rightarrow> pyfloat \<Rightarrow> pyfloat \<Rightarrow> pyfloat \<Rightarrow> pyfloat \<Rightarrow> pyfloat \<Rightarrow>
   pyfloat \<Rightarrow> pyfloat \<Rightarrow> pyfloat \<Rightarrow> bool \<Rightarrow> bool \<Rightarrow> (gceos \<times> string) result" where
  "set_properties_from_solution R s T P V b delta epsilon a_alpha da_alpha_dT d2a_alpha_dT2
       force_l force_g =
     bind_result
       (phase_properties R T P V b delta epsilon a_alpha da_alpha_dT d2a_alpha_dT2)
       (\<lambda>p.
      if force_l \<or> (\<not> force_g \<and> PIP_ph p > Fin 1.00000000000001)
      then Inr (s\<lparr>liquid := Some p\<rparr>, ''l'')
      else Inr (s\<lparr>gas := Some p\<rparr>, ''g''))"

section \<open>The phase selector\<close>

text \<open>Python's \<^verbatim>\<open>min\<close> and \<^verbatim>\<open>max\<close> of a list: the first element, replaced by each
  later one that compares strictly below (above) the current choice.\<close>

definition py_min :: "pyfloat list \<Rightarrow> pyfloat result" where
  "py_min xs =
     (case xs of
        [] \<Rightarrow> Inl (ValueError ''min() arg is an empty sequence'')
      | x # ys \<Rightarrow> Inr (foldl (\<lambda>m y. if y < m then y else m) x ys))"

definition py_max :: "pyfloat list \<Rightarrow> pyfloat result" where
  "py_max xs =
     (case xs of
        [] \<Rightarrow> Inl (ValueError ''max() arg is an empty sequence'')
      | x # ys \<Rightarrow> Inr (foldl (\<lambda>m y. if y > m then y else m) x ys))"

text \<open>
  The filter of \<^verbatim>\<open>set_from_PT\<close>. The quotient is only formed when the real part is not
  zero (the \<^verbatim>\<open>or\<close> short-circuits), so the comprehension raises nothing.
\<close>

definition acceptable :: "pyfloat \<Rightarrow> root \<Rightarrow> bool" where
  "acceptable b i =
     ((py_eq (fst i) (Fin 0) \<or> \<bar>quotient (snd i) (fst i)\<bar> < Fin 0.000000000001)
      \<and> fst i > b)"

definition good_roots :: "pyfloat \<Rightarrow> root list \<Rightarrow> pyfloat list" where
  "good_roots b Vs = map fst (filter (acceptable b) Vs)"

text \<open>
  A float attribute read where a number is needed: \<^verbatim>\<open>None\<close> raises \<^verbatim>\<open>TypeError\<close>
  in the arithmetic. Compared with a float by \<^verbatim>\<open>==\<close>, \<^verbatim>\<open>None\<close> is just different.
\<close>

definition as_float :: "pyfloat option \<Rightarrow> pyfloat result" where
  "as_float x = (case x of None \<Rightarrow> Inl TypeError | Some v \<Rightarrow> Inr v)"

definition py_eq_attr :: "pyfloat \<Rightarrow> pyfloat option \<Rightarrow> bool" where
  "py_eq_attr x y = (case y of None \<Rightarrow> False | Some v \<Rightarrow> py_eq x v)"

text \<open>
  The call \<^verbatim>\<open>self.set_properties_from_solution(self.T, self.P, V, self.b, self.delta,
  self.epsilon, self.a_alpha, self.da_alpha_dT, self.d2a_alpha_dT2, ...)\<close>, which
  \<^verbatim>\<open>set_from_PT\<close> makes at four places. A \<^verbatim>\<open>T\<close> or \<^verbatim>\<open>P\<close> that is \<^verbatim>\<open>None\<close> raises
  \<^verbatim>\<open>TypeError\<close> at the first product that reads it, \<^verbatim>\<open>R*T\<close> or \<^verbatim>\<open>P*V\<close>, which
  \<^verbatim>\<open>main_derivatives_and_departures\<close> forms after the divisions \<^verbatim>\<open>x0\<close> and \<^verbatim>\<open>x1\<close>.
\<close>

definition set_properties_of_self ::
  "pyfloat \<Rightarrow> gceos \<Rightarrow> pyfloat \<Rightarrow> bool \<Rightarrow> bool \<Rightarrow> (gceos \<times> string) result" where
  "set_properties_of_self R s V force_l force_g =
     (case (self_T s, self_P s) of
        (Some T, Some P) \<Rightarrow>
          set_properties_from_solution R s T P V (self_b s) (self_delta s) (self_epsilon s)
            (self_a_alpha s) (self_da_alpha_dT s) (self_d2a_alpha_dT2 s) force_l force_g
      | _ \<Rightarrow>
          bind_result (py_div (Fin 1) (V - self_b s)) (\<lambda>x0.
          bind_result (py_div (Fin 1) (V * (V + self_delta s) + self_epsilon s)) (\<lambda>x1.
          Inl TypeError)))"

text \<open>The test for the critical point of a single component.\<close>

definition at_critical_point :: "gceos \<Rightarrow> bool result" where
  "at_critical_point s =
     (if self_N s = 1 then
        (if self_multicomponent s then
           (case self_Tcs s of
              [] \<Rightarrow> Inl IndexError
            | Tc0 # _ \<Rightarrow>
                if py_eq_attr Tc0 (self_T s) then
                  (case self_Pcs s of
                     [] \<Rightarrow> Inl IndexError
                   | Pc0 # _ \<Rightarrow> Inr (py_eq_attr Pc0 (self_P s)))
                else Inr False)
         else Inr (py_eq_attr (self_Tc s) (self_T s) \<and> py_eq_attr (self_Pc s) (self_P s)))
      else Inr False)"

definition set_from_PT :: "pyfloat \<Rightarrow> gceos \<Rightarrow> root list \<Rightarrow> bool \<Rightarrow> bool \<Rightarrow> gceos result" where
  "set_from_PT R s Vs only_l only_g =
     (let b = self_b s;
          good_roots = good_roots b Vs;
          good_root_count = length good_roots in
      if good_root_count = 1 then
        bind_result (set_properties_of_self R s (good_roots ! 0) False False) (\<lambda>(s1, ph).
        let s2 = s1\<lparr>phase := Some ph\<rparr> in
        bind_result (at_critical_point s2) (\<lambda>critical.
        if critical then
          let force_l = (\<not> phase s2 = Some ''l'');
              force_g = (\<not> phase s2 = Some ''g'') in
          bind_result (set_properties_of_self R s2 (good_roots ! 0) force_l force_g)
            (\<lambda>(s3, ph'). Inr (s3\<lparr>phase := Some ''l/g''\<rparr>))
        else Inr s2))
      else if good_root_count > 1 then
        bind_result (py_min good_roots) (\<lambda>V_l.
        bind_result (py_max good_roots) (\<lambda>V_g.
        bind_result
          (if \<not> only_g then
             bind_result (set_properties_of_self R s V_l True False) (\<lambda>(s1, ph). Inr s1)
           else Inr s)
          (\<lambda>s1.
        bind_result
          (if \<not> only_l then
             bind_result (set_properties_of_self R s1 V_g False True) (\<lambda>(s2, ph). Inr s2)
           else Inr s1)
          (\<lambda>s2. Inr (s2\<lparr>phase := Some ''l/g''\<rparr>)))))
      else
        Inl (NoAcceptableRoots Vs (self_T s) (self_P s) [self_a_alpha s] [self_b s]))"

section \<open>The collaborators\<close>

text \<open>
  What the class takes from outside \<^verbatim>\<open>eos.py\<close>: the \<^verbatim>\<open>a_alpha\<close> functions of the
  subclass (arguments \<^verbatim>\<open>T\<close> and \<^verbatim>\<open>pure_a_alphas\<close>; with \<^verbatim>\<open>full=True\<close> the three values,
  with \<^verbatim>\<open>full=False\<close> only \<^verbatim>\<open>a_alpha\<close>), the root finders \<^verbatim>\<open>brenth\<close>, \<^verbatim>\<open>secant\<close> and the
  predicate \<^verbatim>\<open>isclose\<close> of \<^verbatim>\<open>fluids.numerics\<close>, and the closed-form and iterative tiers of
  the volume solver (Cardano and the other formulas of \<^verbatim>\<open>fluids.numerics\<close>, Newton polishing,
  the low-pressure solver, \<^verbatim>\<open>mpmath\<close>), which \<^verbatim>\<open>volume_solutions_NR\<close> runs after its first
  test. Each may raise.
\<close>

record externals =
  a_alpha_and_derivatives :: "pyfloat \<Rightarrow> bool \<Rightarrow> (pyfloat \<times> pyfloat \<times> pyfloat) result"
  a_alpha_only :: "pyfloat \<Rightarrow> bool \<Rightarrow> pyfloat result"
  brenth :: "(pyfloat \<Rightarrow> pyfloat result) \<Rightarrow> pyfloat \<Rightarrow> pyfloat \<Rightarrow> pyfloat \<Rightarrow>
             (pyfloat \<times> pyfloat) option \<Rightarrow> pyfloat result"
  secant :: "(pyfloat \<Rightarrow> pyfloat result) \<Rightarrow> pyfloat \<Rightarrow> pyfloat \<Rightarrow> pyfloat \<Rightarrow> pyfloat \<Rightarrow>
             pyfloat \<Rightarrow> pyfloat result"
  isclose :: "pyfloat \<Rightarrow> pyfloat \<Rightarrow> pyfloat \<Rightarrow> bool"
  solver_tiers :: "pyfloat \<Rightarrow> pyfloat \<Rightarrow> pyfloat \<Rightarrow> pyfloat \<Rightarrow> pyfloat \<Rightarrow> pyfloat \<Rightarrow>
                   root list result"

section \<open>The cubic root solver\<close>

text \<open>
  \<^verbatim>\<open>volume_solutions_NR\<close>, the default \<^verbatim>\<open>volume_solutions\<close>: the test for the ideal-gas
  limit comes first and returns at once; \<^verbatim>\<open>-1j\<close> has real part zero.
\<close>

definition volume_solutions_NR ::
  "externals \<Rightarrow> pyfloat \<Rightarrow> pyfloat \<Rightarrow> pyfloat \<Rightarrow> pyfloat \<Rightarrow> pyfloat \<Rightarrow> pyfloat \<Rightarrow> pyfloat \<Rightarrow>
   root list result" where
  "volume_solutions_NR ext R T P b delta epsilon a_alpha =
     (if py_eq a_alpha (Fin 0) then
        bind_result (py_div (R * T) P) (\<lambda>RT_P.
        Inr [(b + RT_P, Fin 0), (Fin 0, Fin (- 1)), (Fin 0, Fin (- 1))])
      else solver_tiers ext T P b delta epsilon a_alpha)"

section \<open>The inverse solver\<close>

text \<open>\<^verbatim>\<open>R_inv = 1.0/R\<close>, a module constant (the gas constant is not zero).\<close>

definition R_inv :: "pyfloat \<Rightarrow> pyfloat" where
  "R_inv R = quotient (Fin 1) R"

text \<open>The closure \<^verbatim>\<open>to_solve\<close> of \<^verbatim>\<open>solve_T\<close>, with the variables it captures.\<close>

definition to_solve ::
  "externals \<Rightarrow> pyfloat \<Rightarrow> pyfloat \<Rightarrow> pyfloat \<Rightarrow> pyfloat \<Rightarrow> pyfloat \<Rightarrow> pyfloat result" where
  "to_solve ext R P V_minus_b_inv denominator_inv T =
     bind_result (a_alpha_only ext T True) (\<lambda>a_alpha.
     let P_calc = R * T * V_minus_b_inv - a_alpha * denominator_inv;
         err = P_calc - P in
     Inr err)"

text \<open>
  The loop \<^verbatim>\<open>for low, high in attempt_bounds: try: T = brenth(to_solve, low, high,
  xtol=base_tol); break  except: pass\<close>: the first bracket on which \<^verbatim>\<open>brenth\<close> succeeds.
\<close>

fun first_brenth ::
  "externals \<Rightarrow> (pyfloat \<Rightarrow> pyfloat result) \<Rightarrow> pyfloat \<Rightarrow> (pyfloat \<times> pyfloat) list \<Rightarrow>
   pyfloat option" where
  "first_brenth ext f xtol [] = None"
| "first_brenth ext f xtol ((low, high) # rest) =
     (case brenth ext f low high xtol None of
        Inr t \<Rightarrow> Some t
      | Inl e \<Rightarrow> first_brenth ext f xtol rest)"

text \<open>
  \<^verbatim>\<open>solve_T\<close> up to its last statements: the two candidates \<^verbatim>\<open>T_brenth\<close> and
  \<^verbatim>\<open>T_secant\<close>, each possibly \<^verbatim>\<open>None\<close>. A bare \<^verbatim>\<open>except\<close> catches every exception.
  \<^verbatim>\<open>high_prec\<close> is \<^verbatim>\<open>type(V) is not float\<close>.
\<close>

definition solve_T_candidates ::
  "externals \<Rightarrow> pyfloat \<Rightarrow> gceos \<Rightarrow> pyfloat \<Rightarrow> pyfloat \<Rightarrow> bool \<Rightarrow> string option \<Rightarrow>
   (pyfloat option \<times> pyfloat option) result" where
  "solve_T_candidates ext R s P V high_prec solution =
     bind_result (py_div (Fin 1) (V * V + self_delta s * V + self_epsilon s)) (\<lambda>denominator_inv.
     bind_result (py_div (Fin 1) (V - self_b s)) (\<lambda>V_minus_b_inv.
     let f = to_solve ext R P V_minus_b_inv denominator_inv;
         T_guess_ig = P * V * R_inv R;
         T_guess_liq = P * V * R_inv R * Fin 1000 in
     bind_result (f T_guess_ig) (\<lambda>err_ig.
     bind_result (f T_guess_liq) (\<lambda>err_liq.
     let base_tol = (if high_prec then Fin 0.000000000000000001 else Fin 0.000000000001);
         T_brenth =
           (if err_ig * err_liq < Fin 0 \<and> T_guess_liq < Fin 30000 then
              (case brenth ext f T_guess_ig T_guess_liq base_tol (Some (err_ig, err_liq)) of
                 Inr t \<Rightarrow> Some t
               | Inl e \<Rightarrow> None)
            else None);
         (T_guess, f0) =
           (if \<bar>err_ig\<bar> < \<bar>err_liq\<bar> \<or> T_guess_liq > Fin 20000 \<or> solution = Some ''g''
            then (T_guess_ig, err_ig) else (T_guess_liq, err_liq)) in
     bind_result
       (case secant ext f T_guess (Fin 0.000000000001) base_tol (Fin 10000) f0 of
          Inr t \<Rightarrow> Inr (T_brenth, Some t)
        | Inl e \<Rightarrow>
            let T_guess = (if \<not> py_eq T_guess T_guess_ig then T_guess_ig else T_guess_liq) in
            (case secant ext f T_guess (Fin 0.000000000001) base_tol (Fin 10000) f0 of
               Inr t \<Rightarrow> Inr (T_brenth, Some t)
             | Inl e' \<Rightarrow>
                 (case T_brenth of
                    None \<Rightarrow>
                      bind_result (brenth ext f (Fin 0.001) (Fin 10000) base_tol None)
                        (\<lambda>t. Inr (Some t, None))
                  | Some t \<Rightarrow> Inr (T_brenth, None))))
       (\<lambda>(T_brenth, T_secant).
     let more_bounds =
           (if T_guess_liq > Fin 100000
            then [(Fin 10000, T_guess_liq), (T_guess_liq, T_guess_liq * Fin 10)] else []) in
     (case solution of
        None \<Rightarrow> Inr (T_brenth, T_secant)
      | Some hint \<Rightarrow>
          let T_brenth =
                (if (case T_brenth of
                       None \<Rightarrow> True
                     | Some tb \<Rightarrow>
                         (case T_secant of
                            None \<Rightarrow> False
                          | Some ts \<Rightarrow> isclose ext tb ts (Fin 0.0000001)))
                 then
                   let attempt_bounds =
                         (case T_secant of
                            Some ts \<Rightarrow>
                              [(Fin 0.001, ts - Fin 0.00001), (ts + Fin 0.001, Fin 10000),
                               (ts + Fin 0.001, Fin 100000)]
                          | None \<Rightarrow> [(Fin 0.001, Fin 10000), (Fin 10000, Fin 100000)])
                         @ more_bounds in
                   (case first_brenth ext f base_tol attempt_bounds of
                      Some t \<Rightarrow> Some t
                    | None \<Rightarrow> T_brenth)
                 else T_brenth);
              T_secant =
                (case T_secant of
                   None \<Rightarrow>
                     first_brenth ext f base_tol
                       ([(Fin 10000, Fin 100000), (Fin 0.001, Fin 10000)] @ more_bounds)
                 | Some ts \<Rightarrow> T_secant) in
          Inr (T_brenth, T_secant)))))))"

text \<open>
  \<^verbatim>\<open>solve_T\<close>: the choice between the candidates. \<^verbatim>\<open>max(a, b)\<close> is \<^verbatim>\<open>a\<close> unless
  \<^verbatim>\<open>b > a\<close>, \<^verbatim>\<open>min(a, b)\<close> is \<^verbatim>\<open>a\<close> unless \<^verbatim>\<open>b < a\<close>. The method also sets
  \<^verbatim>\<open>no_T_spec\<close>.
\<close>

definition solve_T ::
  "externals \<Rightarrow> pyfloat \<Rightarrow> gceos \<Rightarrow> pyfloat \<Rightarrow> pyfloat \<Rightarrow> bool \<Rightarrow> string option \<Rightarrow>
   (gceos \<times> pyfloat option) result" where
  "solve_T ext R s P V high_prec solution =
     bind_result (solve_T_candidates ext R s P V high_prec solution) (\<lambda>(T_brenth, T_secant).
     Inr (s\<lparr>self_no_T_spec := True\<rparr>,
       (case (solution, T_secant, T_brenth) of
          (Some hint, Some ts, Some tb) \<Rightarrow>
            if hint = ''g'' then Some (if ts > tb then ts else tb)
            else Some (if ts < tb then ts else tb)
        | _ \<Rightarrow>
          (case T_brenth of
             None \<Rightarrow> T_secant
           | Some tb \<Rightarrow>
               (case T_secant of
                  Some ts \<Rightarrow>
                    if \<bar>tb - Fin 298.15\<bar> < \<bar>ts - Fin 298.15\<bar> then Some tb else Some ts
                | None \<Rightarrow> Some tb)))))"

section \<open>Solving a state\<close>

definition check_sufficient_inputs :: "gceos \<Rightarrow> unit result" where
  "check_sufficient_inputs s =
     (if \<not> ((self_T s \<noteq> None \<and> self_P s \<noteq> None)
            \<or> (self_T s \<noteq> None \<and> self_V s \<noteq> None)
            \<or> (self_P s \<noteq> None \<and> self_V s \<noteq> None))
      then Inl (Exception ''Either T and P, or T and V, or P and V are required'')
      else Inr ())"

text \<open>
  \<^verbatim>\<open>solve\<close>. With a volume given, the temperature comes from \<^verbatim>\<open>solve_T\<close> when the
  pressure is given too, and the pressure from the equation of state otherwise; the branch
  for an \<^verbatim>\<open>mpmath\<close> volume only raises the precision of \<^verbatim>\<open>R*T\<close>, and \<^verbatim>\<open>float\<close> is the
  identity on a float. The \<^verbatim>\<open>ValueError\<close> of a pressure that is not positive is the
  error \<open>NegativePressure\<close>, with the pressure its message shows.
\<close>

definition solve ::
  "externals \<Rightarrow> pyfloat \<Rightarrow> gceos \<Rightarrow> bool \<Rightarrow> bool \<Rightarrow> bool \<Rightarrow> bool \<Rightarrow> gceos result" where
  "solve ext R s pure_a_alphas only_l only_g full_alphas =
     bind_result (check_sufficient_inputs s) (\<lambda>u.
     case self_V s of
       Some V \<Rightarrow>
         bind_result
           (case self_P s of
              Some P \<Rightarrow>
                let solution =
                      (if only_g \<and> \<not> only_l then Some ''g''
                       else if only_l then Some ''l'' else None) in
                bind_result (solve_T ext R s P V (\<not> self_V_is_float s) solution) (\<lambda>(s1, T).
                let s2 = s1\<lparr>self_T := T\<rparr> in
                bind_result (as_float (self_T s2)) (\<lambda>T.
                bind_result (a_alpha_and_derivatives ext T pure_a_alphas)
                  (\<lambda>(a_alpha, da_alpha_dT, d2a_alpha_dT2).
                Inr (s2\<lparr>self_a_alpha := a_alpha, self_da_alpha_dT := da_alpha_dT,
                        self_d2a_alpha_dT2 := d2a_alpha_dT2\<rparr>))))
            | None \<Rightarrow>
                bind_result (as_float (self_T s)) (\<lambda>T.
                bind_result (a_alpha_and_derivatives ext T pure_a_alphas)
                  (\<lambda>(a_alpha, da_alpha_dT, d2a_alpha_dT2).
                let s1 = s\<lparr>self_a_alpha := a_alpha, self_da_alpha_dT := da_alpha_dT,
                           self_d2a_alpha_dT2 := d2a_alpha_dT2\<rparr> in
                bind_result (py_div (R * T) (V - self_b s1)) (\<lambda>q0.
                bind_result
                  (py_div (self_a_alpha s1) (V * V + self_delta s1 * V + self_epsilon s1))
                  (\<lambda>q1.
                let P = q0 - q1;
                    s2 = s1\<lparr>self_P := Some P\<rparr> in
                if P \<le> Fin 0 then Inl (NegativePressure P) else Inr s2)))))
           (\<lambda>s3.
         let Vs = [(V, Fin 0), (Fin 0, Fin 1), (Fin 0, Fin 1)] in
         set_from_PT R s3 Vs only_l only_g)
     | None \<Rightarrow>
         bind_result (as_float (self_T s)) (\<lambda>T.
         bind_result
           (if full_alphas then
              bind_result (a_alpha_and_derivatives ext T pure_a_alphas)
                (\<lambda>(a_alpha, da_alpha_dT, d2a_alpha_dT2).
              Inr (s\<lparr>self_a_alpha := a_alpha, self_da_alpha_dT := da_alpha_dT,
                     self_d2a_alpha_dT2 := d2a_alpha_dT2\<rparr>))
            else
              bind_result (a_alpha_only ext T pure_a_alphas) (\<lambda>a_alpha.
              Inr (s\<lparr>self_a_alpha := a_alpha, self_da_alpha_dT := Fin (- 0.005),
                     self_d2a_alpha_dT2 := Fin 0.000015\<rparr>)))
           (\<lambda>s1.
         bind_result (as_float (self_P s1)) (\<lambda>P.
         bind_result
           (volume_solutions_NR ext R T P (self_b s1) (self_delta s1) (self_epsilon s1)
              (self_a_alpha s1))
           (\<lambda>Vs.
         set_from_PT R (s1\<lparr>self_raw_volumes := Some Vs\<rparr>) Vs only_l only_g)))))"

section \<open>A departure derivative\<close>

text \<open>
  The property \<^verbatim>\<open>dH_dep_dT_l_V\<close> of a solved state. It reads the liquid attributes, which
  raises \<^verbatim>\<open>AttributeError\<close> when there are none; with a negative
  \<^verbatim>\<open>delta*delta - 4.0*epsilon\<close> the value is a complex number.
\<close>

definition dH_dep_dT_l_V :: "pyfloat \<Rightarrow> gceos \<Rightarrow> py_number result" where
  "dH_dep_dT_l_V R s =
     (let T = self_T s;
          delta = self_delta s;
          epsilon = self_epsilon s in
      case liquid s of
        None \<Rightarrow> Inl AttributeError
      | Some p \<Rightarrow>
          let V = V_ph p;
              dP_dT = dP_dT_ph p in
          bind_result
            (except_ZeroDivisionError (pow_neg_half (delta * delta - Fin 4 * epsilon))
               (FloatValue (Fin (10 ^ 100))))
            (\<lambda>x0'.
          bind_result (as_float T) (\<lambda>T.
          case x0' of
            ComplexValue \<Rightarrow> Inr ComplexValue
          | FloatValue x0 \<Rightarrow>
              bind_result (catanh_real (x0 * (V + V + delta))) (\<lambda>atanh_x.
              Inr (FloatValue ((- R) + Fin 2 * T * x0 * atanh_x * self_d2a_alpha_dT2 s
                               + V * dP_dT))))))"

section \<open>Example states\<close>

text \<open>
  A state at \<^verbatim>\<open>T = 1\<close>, \<^verbatim>\<open>P = R\<close> with \<^verbatim>\<open>b = 1\<close> and all other coefficients zero (the
  van der Waals form with no attraction), not at its critical point; the gas constant has
  its CODATA value.
\<close>

definition R0 :: pyfloat where
  "R0 = Fin 8.31446261815324"

definition state0 :: gceos where
  "state0 = \<lparr>self_T = Some (Fin 1), self_P = Some R0, self_V = None,
     self_V_is_float = True, self_Tc = Fin 500, self_Pc = Fin 3000000, self_N = 1,
     self_multicomponent = False, self_Tcs = [], self_Pcs = [],
     self_b = Fin 1, self_delta = Fin 0, self_epsilon = Fin 0,
     self_a_alpha = Fin 0, self_da_alpha_dT = Fin 0, self_d2a_alpha_dT2 = Fin 0,
     self_raw_volumes = None, self_no_T_spec = False,
     liquid = None, gas = None, phase = None\<rparr>"

text \<open>The same state with its critical point at \<^verbatim>\<open>T\<close> and \<^verbatim>\<open>P\<close>.\<close>

definition state_critical :: gceos where
  "state_critical = state0\<lparr>self_Tc := Fin 1, self_Pc := R0\<rparr>"

text \<open>
  Collaborators for the examples: an \<^verbatim>\<open>a_alpha\<close> that is zero (the ideal-gas class
  \<^verbatim>\<open>IG\<close> has this one) or constant, root finders that return fixed temperatures, and no
  further solver tier. \<open>state_TV\<close> is the example state specified by \<^verbatim>\<open>T\<close> and \<^verbatim>\<open>V\<close>.
\<close>

definition ext0 :: externals where
  "ext0 = \<lparr>a_alpha_and_derivatives = (\<lambda>T pure_a_alphas. Inr (Fin 0, Fin 0, Fin 0)),
            a_alpha_only = (\<lambda>T pure_a_alphas. Inr (Fin 0)),
            brenth = (\<lambda>f a b xtol fs. Inr (Fin 300)),
            secant = (\<lambda>f x0 low xtol same_tol f0. Inr (Fin 400)),
            isclose = (\<lambda>a b rel_tol. False),
            solver_tiers = (\<lambda>T P b delta epsilon a_alpha. Inl (SolverError ''no tier''))\<rparr>"

definition ext_attractive :: externals where
  "ext_attractive = ext0\<lparr>a_alpha_and_derivatives :=
      (\<lambda>T pure_a_alphas. Inr (Fin 100, Fin 0, Fin 0)),
      a_alpha_only := (\<lambda>T pure_a_alphas. Inr (Fin 100))\<rparr>"

definition state_TV :: gceos where
  "state_TV = state0\<lparr>self_P := None, self_V := Some (Fin 2)\<rparr>"


section \<open>Basic facts\<close>

lemma bind_result_Inl [simp]: "bind_result (Inl e) f = Inl e"
  by (simp add: bind_result_def)

lemma bind_result_Inr [simp]: "bind_result (Inr x) f = f x"
  by (simp add: bind_result_def)

lemma bind_result_eq_Inr: "bind_result m f = Inr y \<longleftrightarrow> (\<exists>x. m = Inr x \<and> f x = Inr y)"
  by (cases m) simp_all


lemma phase_properties_fields:
  assumes "phase_properties R T P V b delta epsilon a_alpha da_alpha_dT d2a_alpha_dT2 = Inr p"
  shows "\<exists>dP_dT dP_dV dV_dT dV_dP dT_dV dT_dP d2P_dT2 d2P_dV2 d2V_dT2 d2V_dP2 d2T_dV2 d2T_dP2
            d2V_dPdT d2P_dTdV d2T_dPdV H_dep S_dep Cv_dep.
           derivatives_and_departures R T P V b delta epsilon a_alpha da_alpha_dT d2a_alpha_dT2 =
             Inr (dP_dT, dP_dV, dV_dT, dV_dP, dT_dV, dT_dP,
                  d2P_dT2, d2P_dV2, d2V_dT2, d2V_dP2, d2T_dV2, d2T_dP2,
                  d2V_dPdT, d2P_dTdV, d2T_dPdV, H_dep, S_dep, Cv_dep)
           \<and> V_ph p = V
           \<and> d2P_dTdV_ph p = d2P_dTdV \<and> dT_dP_ph p = dT_dP
           \<and> d2P_dV2_ph p = d2P_dV2 \<and> dV_dP_ph p = dV_dP
           \<and> PIP_ph p = V * (d2P_dTdV * dT_dP - d2P_dV2 * dV_dP)"
proof -
  obtain d where d: "derivatives_and_departures R T P V b delta epsilon a_alpha da_alpha_dT d2a_alpha_dT2 = Inr d"
    using assms by (cases "derivatives_and_departures R T P V b delta epsilon a_alpha da_alpha_dT d2a_alpha_dT2")
      (simp_all add: phase_properties_def)
  obtain dP_dT dP_dV dV_dT dV_dP dT_dV dT_dP d2P_dT2 d2P_dV2 d2V_dT2 d2V_dP2 d2T_dV2 d2T_dP2
            d2V_dPdT d2P_dTdV d2T_dPdV H_dep S_dep Cv_dep
    where dd: "d = (dP_dT, dP_dV, dV_dT, dV_dP, dT_dV, dT_dP,
                  d2P_dT2, d2P_dV2, d2V_dT2, d2V_dP2, d2T_dV2, d2T_dP2,
                  d2V_dPdT, d2P_dTdV, d2T_dPdV, H_dep, S_dep, Cv_dep)"
    by (metis prod_cases3)
  from assms d dd show ?thesis
    by (auto simp: phase_properties_def bind_result_eq_Inr Let_def)
qed

lemma set_properties_from_solution_Inr:
  "set_properties_from_solution R s T P V b delta epsilon a_alpha da_alpha_dT d2a_alpha_dT2
     force_l force_g = Inr (s', ph) \<longleftrightarrow>
   (\<exists>p. phase_properties R T P V b delta epsilon a_alpha da_alpha_dT d2a_alpha_dT2 = Inr p
      \<and> (if force_l \<or> (\<not> force_g \<and> PIP_ph p > Fin 1.00000000000001)
         then s' = s\<lparr>liquid := Some p\<rparr> \<and> ph = ''l''
         else s' = s\<lparr>gas := Some p\<rparr> \<and> ph = ''g''))"
  by (auto simp: set_properties_from_solution_def bind_result_eq_Inr)

lemma set_properties_of_self_Inr:
  "set_properties_of_self R s V force_l force_g = Inr r \<longleftrightarrow>
   (\<exists>T P. self_T s = Some T \<and> self_P s = Some P
      \<and> set_properties_from_solution R s T P V (self_b s) (self_delta s) (self_epsilon s)
          (self_a_alpha s) (self_da_alpha_dT s) (self_d2a_alpha_dT2 s) force_l force_g = Inr r)"
  by (auto simp: set_properties_of_self_def bind_result_eq_Inr split: option.splits)

lemma less_pyfloat_not_NaN: "(x::pyfloat) < y \<Longrightarrow> x \<noteq> NaN \<and> y \<noteq> NaN"
  by (cases x; cases y) auto

lemma not_less_pyfloat: "x \<noteq> NaN \<Longrightarrow> y \<noteq> NaN \<Longrightarrow> \<not> (y::pyfloat) < x \<Longrightarrow> x \<le> y"
  by (cases x; cases y) auto

lemma less_imp_le_pyfloat: "(x::pyfloat) < y \<Longrightarrow> x \<le> y"
  by (cases x; cases y) auto

lemma le_refl_pyfloat: "x \<noteq> NaN \<Longrightarrow> (x::pyfloat) \<le> x"
  by (cases x) auto

lemma le_trans_pyfloat: "(x::pyfloat) \<le> y \<Longrightarrow> y \<le> z \<Longrightarrow> x \<le> z"
  by (cases x; cases y; cases z) auto

lemma foldl_min_pyfloat:
  assumes "m \<noteq> NaN" "\<forall>y\<in>set ys. y \<noteq> NaN"
  shows "foldl (\<lambda>m y. if y < m then y else m) m ys \<in> set (m # ys)
         \<and> (\<forall>y\<in>set (m # ys). foldl (\<lambda>m y. if y < m then y else m) m ys \<le> y)"
  using assms
proof (induction ys arbitrary: m)
  case Nil
  then show ?case by (simp add: le_refl_pyfloat)
next
  case (Cons a ys)
  let ?f = "\<lambda>m y. if (y::pyfloat) < m then y else m"
  let ?m' = "if a < m then a else m"
  have m': "?m' \<noteq> NaN" using Cons.prems by auto
  have ih: "foldl ?f ?m' ys \<in> set (?m' # ys) \<and> (\<forall>y\<in>set (?m' # ys). foldl ?f ?m' ys \<le> y)"
    using Cons.IH [OF m'] Cons.prems by simp
  have le_m: "?m' \<le> m" using Cons.prems by (auto simp: less_imp_le_pyfloat le_refl_pyfloat)
  have le_a: "?m' \<le> a" using Cons.prems by (auto simp: not_less_pyfloat le_refl_pyfloat)
  from ih have r: "foldl ?f ?m' ys \<le> ?m'" by simp
  have "foldl ?f ?m' ys \<le> m" "foldl ?f ?m' ys \<le> a"
    using le_trans_pyfloat [OF r le_m] le_trans_pyfloat [OF r le_a] by blast+
  with ih show ?case by auto
qed

lemma foldl_max_pyfloat:
  assumes "m \<noteq> NaN" "\<forall>y\<in>set ys. y \<noteq> NaN"
  shows "foldl (\<lambda>m y. if y > m then y else m) m ys \<in> set (m # ys)
         \<and> (\<forall>y\<in>set (m # ys). y \<le> foldl (\<lambda>m y. if y > m then y else m) m ys)"
  using assms
proof (induction ys arbitrary: m)
  case Nil
  then show ?case by (simp add: le_refl_pyfloat)
next
  case (Cons a ys)
  let ?f = "\<lambda>m y. if (y::pyfloat) > m then y else m"
  let ?m' = "if a > m then a else m"
  have m': "?m' \<noteq> NaN" using Cons.prems by auto
  have ih: "foldl ?f ?m' ys \<in> set (?m' # ys) \<and> (\<forall>y\<in>set (?m' # ys). y \<le> foldl ?f ?m' ys)"
    using Cons.IH [OF m'] Cons.prems by simp
  have le_m: "m \<le> ?m'" using Cons.prems by (auto simp: less_imp_le_pyfloat le_refl_pyfloat)
  have le_a: "a \<le> ?m'" using Cons.prems by (auto simp: not_less_pyfloat le_refl_pyfloat)
  from ih have r: "?m' \<le> foldl ?f ?m' ys" by simp
  have "m \<le> foldl ?f ?m' ys" "a \<le> foldl ?f ?m' ys"
    using le_trans_pyfloat [OF le_m r] le_trans_pyfloat [OF le_a r] by blast+
  with ih show ?case by auto
qed

lemma py_min_least:
  assumes "py_min xs = Inr m" "\<forall>x\<in>set xs. x \<noteq> NaN"
  shows "m \<in> set xs \<and> (\<forall>x\<in>set xs. m \<le> x)"
proof (cases xs)
  case Nil
  with assms show ?thesis by (simp add: py_min_def)
next
  case (Cons x ys)
  with assms foldl_min_pyfloat [of x ys] show ?thesis
    by (auto simp: py_min_def)
qed

lemma py_max_greatest:
  assumes "py_max xs = Inr m" "\<forall>x\<in>set xs. x \<noteq> NaN"
  shows "m \<in> set xs \<and> (\<forall>x\<in>set xs. x \<le> m)"
proof (cases xs)
  case Nil
  with assms show ?thesis by (simp add: py_max_def)
next
  case (Cons x ys)
  with assms foldl_max_pyfloat [of x ys] show ?thesis
    by (auto simp: py_max_def)
qed

lemma good_roots_not_NaN: "\<forall>v\<in>set (good_roots b Vs). v \<noteq> NaN"
  by (auto simp: good_roots_def acceptable_def dest: less_pyfloat_not_NaN)

lemma good_roots_acceptable:
  "v \<in> set (good_roots b Vs) \<longleftrightarrow> (\<exists>i\<in>set Vs. acceptable b i \<and> v = fst i)"
  by (auto simp: good_roots_def)

lemma set_properties_of_self_cases:
  assumes "set_properties_of_self R s V force_l force_g = Inr (s1, ph)"
  shows "\<exists>T P p. self_T s = Some T \<and> self_P s = Some P
           \<and> phase_properties R T P V (self_b s) (self_delta s) (self_epsilon s)
               (self_a_alpha s) (self_da_alpha_dT s) (self_d2a_alpha_dT2 s) = Inr p
           \<and> V_ph p = V
           \<and> (if force_l \<or> (\<not> force_g \<and> PIP_ph p > Fin 1.00000000000001)
              then s1 = s\<lparr>liquid := Some p\<rparr> \<and> ph = ''l''
              else s1 = s\<lparr>gas := Some p\<rparr> \<and> ph = ''g'')"
proof -
  from assms obtain T P where tp: "self_T s = Some T" "self_P s = Some P"
    and sp: "set_properties_from_solution R s T P V (self_b s) (self_delta s) (self_epsilon s)
          (self_a_alpha s) (self_da_alpha_dT s) (self_d2a_alpha_dT2 s) force_l force_g = Inr (s1, ph)"
    unfolding set_properties_of_self_Inr by blast
  from sp obtain p where
    p: "phase_properties R T P V (self_b s) (self_delta s) (self_epsilon s)
               (self_a_alpha s) (self_da_alpha_dT s) (self_d2a_alpha_dT2 s) = Inr p"
    and sel: "if force_l \<or> (\<not> force_g \<and> PIP_ph p > Fin 1.00000000000001)
              then s1 = s\<lparr>liquid := Some p\<rparr> \<and> ph = ''l''
              else s1 = s\<lparr>gas := Some p\<rparr> \<and> ph = ''g''"
    unfolding set_properties_from_solution_Inr by blast
  from phase_properties_fields [OF p] have "V_ph p = V" by blast
  with tp p sel show ?thesis by blast
qed

lemma set_properties_of_self_success:
  assumes "self_T s = Some T" "self_P s = Some P"
    and "phase_properties R T P V (self_b s) (self_delta s) (self_epsilon s)
               (self_a_alpha s) (self_da_alpha_dT s) (self_d2a_alpha_dT2 s) = Inr p"
  shows "set_properties_of_self R s V force_l force_g =
           (if force_l \<or> (\<not> force_g \<and> PIP_ph p > Fin 1.00000000000001)
            then Inr (s\<lparr>liquid := Some p\<rparr>, ''l'') else Inr (s\<lparr>gas := Some p\<rparr>, ''g''))"
  using assms
  by (simp add: set_properties_of_self_def set_properties_from_solution_def)


lemma set_from_PT_two_roots:
  assumes two: "2 \<le> length (good_roots (self_b s) Vs)"
  shows "set_from_PT R s Vs only_l only_g =
     bind_result (py_min (good_roots (self_b s) Vs)) (\<lambda>V_l.
     bind_result (py_max (good_roots (self_b s) Vs)) (\<lambda>V_g.
     bind_result
       (if \<not> only_g then
          bind_result (set_properties_of_self R s V_l True False) (\<lambda>(s1, ph). Inr s1)
        else Inr s)
       (\<lambda>s1.
     bind_result
       (if \<not> only_l then
          bind_result (set_properties_of_self R s1 V_g False True) (\<lambda>(s2, ph). Inr s2)
        else Inr s1)
       (\<lambda>s2. Inr (s2\<lparr>phase := Some ''l/g''\<rparr>)))))"
proof -
  from two have "length (good_roots (self_b s) Vs) \<noteq> 1" "1 < length (good_roots (self_b s) Vs)"
    by auto
  then show ?thesis
    by (simp add: set_from_PT_def Let_def)
qed

lemma forced_liquid:
  assumes "bind_result (set_properties_of_self R s V True False) (\<lambda>(s1, ph). Inr s1) = Inr s1"
  shows "\<exists>p. s1 = s\<lparr>liquid := Some p\<rparr> \<and> V_ph p = V"
proof -
  from assms obtain ph where "set_properties_of_self R s V True False = Inr (s1, ph)"
    by (auto simp: bind_result_eq_Inr)
  from set_properties_of_self_cases [OF this] show ?thesis by auto
qed

lemma forced_gas:
  assumes "bind_result (set_properties_of_self R s V False True) (\<lambda>(s1, ph). Inr s1) = Inr s1"
  shows "\<exists>p. s1 = s\<lparr>gas := Some p\<rparr> \<and> V_ph p = V"
proof -
  from assms obtain ph where "set_properties_of_self R s V False True = Inr (s1, ph)"
    by (auto simp: bind_result_eq_Inr)
  from set_properties_of_self_cases [OF this] show ?thesis by auto
qed

text \<open>The example state \<open>state0\<close>, evaluated at the volumes 2 and 3.\<close>

lemmas evaluation =
  R0_def phase_properties_def derivatives_and_departures_def
  main_derivatives_and_departures_def py_div_def except_ZeroDivisionError_def Let_def
  minus_pyfloat_def trunc_exp_def

lemma props_root2:
  "\<exists>p. phase_properties R0 (Fin 1) R0 (Fin 2) (Fin 1) (Fin 0) (Fin 0) (Fin 0) (Fin 0) (Fin 0) = Inr p
       \<and> PIP_ph p = Fin 2"
  by (simp add: evaluation)

lemma props_root3:
  "\<exists>p. phase_properties R0 (Fin 1) R0 (Fin 3) (Fin 1) (Fin 0) (Fin 0) (Fin 0) (Fin 0) (Fin 0) = Inr p
       \<and> PIP_ph p = Fin (3 / 2)"
  by (simp add: evaluation)

lemma good_roots_example:
  "good_roots (Fin 1) [(Fin 2, Fin 0), (Fin 3, Fin 0), (Fin 0, Fin 1)] = [Fin 2, Fin 3]"
  by (simp add: good_roots_def acceptable_def py_eq_def)

lemma min_example: "py_min [Fin 2, Fin 3] = Inr (Fin 2)"
  by (simp add: py_min_def)

lemma max_example: "py_max [Fin 2, Fin 3] = Inr (Fin 3)"
  by (simp add: py_max_def)

lemma state0_fields:
  "self_T state0 = Some (Fin 1)" "self_P state0 = Some R0" "self_b state0 = Fin 1"
  "self_delta state0 = Fin 0" "self_epsilon state0 = Fin 0" "self_a_alpha state0 = Fin 0"
  "self_da_alpha_dT state0 = Fin 0" "self_d2a_alpha_dT2 state0 = Fin 0"
  "liquid state0 = None" "gas state0 = None"
  by (simp_all add: state0_def)

lemma at_critical_point_update [simp]:
  "at_critical_point (s\<lparr>liquid := l\<rparr>) = at_critical_point s"
  "at_critical_point (s\<lparr>gas := g\<rparr>) = at_critical_point s"
  "at_critical_point (s\<lparr>phase := ph\<rparr>) = at_critical_point s"
  by (simp_all add: at_critical_point_def split: list.splits)

lemma set_from_PT_one_root:
  assumes one: "good_roots (self_b s) Vs = [v]"
  shows "set_from_PT R s Vs only_l only_g =
     bind_result (set_properties_of_self R s v False False) (\<lambda>(s1, ph).
     bind_result (at_critical_point (s1\<lparr>phase := Some ph\<rparr>)) (\<lambda>critical.
     if critical then
       bind_result
         (set_properties_of_self R (s1\<lparr>phase := Some ph\<rparr>) v (ph \<noteq> ''l'') (ph \<noteq> ''g''))
         (\<lambda>(s3, ph'). Inr (s3\<lparr>phase := Some ''l/g''\<rparr>))
     else Inr (s1\<lparr>phase := Some ph\<rparr>)))"
  unfolding set_from_PT_def Let_def one by (simp cong: if_cong)

lemma bind_result_eq_Inl:
  "bind_result m f = Inl e \<longleftrightarrow> m = Inl e \<or> (\<exists>x. m = Inr x \<and> f x = Inl e)"
  by (cases m) simp_all

lemma no_NegativePressure_basic [simp]:
  "py_div x y \<noteq> Inl (NegativePressure p)"
  "pow_neg_half x \<noteq> Inl (NegativePressure p)"
  "catanh_real x \<noteq> Inl (NegativePressure p)"
  "clog_real x \<noteq> Inl (NegativePressure p)"
  "log_py x \<noteq> Inl (NegativePressure p)"
  "py_min xs \<noteq> Inl (NegativePressure p)"
  "py_max xs \<noteq> Inl (NegativePressure p)"
  "as_float t \<noteq> Inl (NegativePressure p)"
  "at_critical_point s \<noteq> Inl (NegativePressure p)"
  by (cases x; simp add: py_div_def py_min_def py_max_def as_float_def at_critical_point_def
         split: list.splits option.splits)+

lemma except_no_NegativePressure [simp]:
  "except_ZeroDivisionError m d = Inl (NegativePressure p) \<longleftrightarrow> m = Inl (NegativePressure p)"
  by (cases m) (auto simp: except_ZeroDivisionError_def split: error.splits)

lemma main_no_NegativePressure:
  "main_derivatives_and_departures R T P V b delta epsilon a_alpha da d2a \<noteq> Inl (NegativePressure p)"
  by (auto simp: main_derivatives_and_departures_def bind_result_eq_Inl Let_def
      split: py_number.splits)

lemma derivatives_no_NegativePressure:
  "derivatives_and_departures R T P V b delta epsilon a_alpha da d2a \<noteq> Inl (NegativePressure p)"
  by (auto simp: derivatives_and_departures_def bind_result_eq_Inl Let_def main_no_NegativePressure)

lemma phase_properties_no_NegativePressure:
  "phase_properties R T P V b delta epsilon a_alpha da d2a \<noteq> Inl (NegativePressure p)"
  by (auto simp: phase_properties_def bind_result_eq_Inl Let_def derivatives_no_NegativePressure)

lemma set_properties_of_self_no_NegativePressure:
  "set_properties_of_self R s V fl fg \<noteq> Inl (NegativePressure p)"
  by (auto simp: set_properties_of_self_def set_properties_from_solution_def bind_result_eq_Inl
      phase_properties_no_NegativePressure split: option.splits)

lemma set_from_PT_no_NegativePressure:
  "set_from_PT R s Vs only_l only_g \<noteq> Inl (NegativePressure p)"
  by (auto simp: set_from_PT_def bind_result_eq_Inl Let_def
      set_properties_of_self_no_NegativePressure split: if_splits)

lemma solve_TV:
  assumes v: "self_V s = Some V" and np: "self_P s = None" and t: "self_T s = Some T"
    and a: "a_alpha_and_derivatives ext T pure_a_alphas = Inr (a_alpha, da_alpha_dT, d2a_alpha_dT2)"
  shows "solve ext R s pure_a_alphas only_l only_g full_alphas =
     bind_result (py_div (R * T) (V - self_b s)) (\<lambda>q0.
     bind_result (py_div a_alpha (V * V + self_delta s * V + self_epsilon s)) (\<lambda>q1.
     if q0 - q1 \<le> Fin 0 then Inl (NegativePressure (q0 - q1))
     else set_from_PT R
            (s\<lparr>self_a_alpha := a_alpha, self_da_alpha_dT := da_alpha_dT,
               self_d2a_alpha_dT2 := d2a_alpha_dT2, self_P := Some (q0 - q1)\<rparr>)
            [(V, Fin 0), (Fin 0, Fin 1), (Fin 0, Fin 1)] only_l only_g))"
proof (cases "py_div (R * T) (V - self_b s)")
  case (Inl e)
  then show ?thesis
    by (simp add: solve_def check_sufficient_inputs_def v np t a as_float_def Let_def)
next
  case q0: (Inr q0)
  show ?thesis
  proof (cases "py_div a_alpha (V * V + self_delta s * V + self_epsilon s)")
    case (Inl e)
    with q0 show ?thesis
      by (simp add: solve_def check_sufficient_inputs_def v np t a as_float_def Let_def)
  next
    case (Inr q1)
    with q0 show ?thesis
      by (simp add: solve_def check_sufficient_inputs_def v np t a as_float_def Let_def)
  qed
qed

lemma less_pyfloat_irrefl [simp]: "\<not> (x::pyfloat) < x"
  by (cases x) auto

lemma less_pyfloat_asym: "(x::pyfloat) < y \<Longrightarrow> \<not> y < x"
  by (cases x; cases y) auto

section \<open>No acceptable root\<close>



section \<open>Phase identification\<close>

text \<open>
  Claim C3. For a root that is not forced to a phase, the property setter computes the phase
  identification parameter as \<^verbatim>\<open>PIP = V*(d2P_dTdV*dT_dP - d2P_dV2*dV_dP)\<close> from the
  derivatives returned by \<^verbatim>\<open>derivatives_and_departures\<close>, stores the properties as liquid and
  returns \<^verbatim>\<open>'l'\<close> when \<^verbatim>\<open>PIP > 1 + 1e-14\<close>, and stores them as gas and returns \<^verbatim>\<open>'g'\<close>
  otherwise.
\<close>

theorem phase_identification:
  assumes "set_properties_from_solution R s T P V b delta epsilon a_alpha da_alpha_dT
             d2a_alpha_dT2 False False = Inr (s', ph)"
  shows "\<exists>p dP_dT dP_dV dV_dT dV_dP dT_dV dT_dP d2P_dT2 d2P_dV2 d2V_dT2 d2V_dP2 d2T_dV2 d2T_dP2
            d2V_dPdT d2P_dTdV d2T_dPdV H_dep S_dep Cv_dep.
           derivatives_and_departures R T P V b delta epsilon a_alpha da_alpha_dT d2a_alpha_dT2 =
             Inr (dP_dT, dP_dV, dV_dT, dV_dP, dT_dV, dT_dP,
                  d2P_dT2, d2P_dV2, d2V_dT2, d2V_dP2, d2T_dV2, d2T_dP2,
                  d2V_dPdT, d2P_dTdV, d2T_dPdV, H_dep, S_dep, Cv_dep)
           \<and> PIP_ph p = V * (d2P_dTdV * dT_dP - d2P_dV2 * dV_dP)
           \<and> V_ph p = V
           \<and> (if PIP_ph p > Fin 1 + Fin 0.00000000000001
              then ph = ''l'' \<and> s' = s\<lparr>liquid := Some p\<rparr>
              else ph = ''g'' \<and> s' = s\<lparr>gas := Some p\<rparr>)"
proof -
  have c: "Fin 1 + Fin 0.00000000000001 = Fin 1.00000000000001" by simp
  from assms obtain p where
    p: "phase_properties R T P V b delta epsilon a_alpha da_alpha_dT d2a_alpha_dT2 = Inr p"
    and sel: "if PIP_ph p > Fin 1.00000000000001
              then s' = s\<lparr>liquid := Some p\<rparr> \<and> ph = ''l''
              else s' = s\<lparr>gas := Some p\<rparr> \<and> ph = ''g''"
    unfolding set_properties_from_solution_Inr by auto
  from phase_properties_fields [OF p] sel show ?thesis
    unfolding c by (intro exI [of _ p]) (auto split: if_splits)
qed

theorem phase_identification_witness:
  "\<exists>p. set_properties_from_solution R0 state0 (Fin 1) R0 (Fin 2) (Fin 1) (Fin 0) (Fin 0)
          (Fin 0) (Fin 0) (Fin 0) False False = Inr (state0\<lparr>liquid := Some p\<rparr>, ''l'')
       \<and> PIP_ph p = Fin 2 \<and> V_ph p = Fin 2"
proof -
  from props_root2 obtain p where
    p: "phase_properties R0 (Fin 1) R0 (Fin 2) (Fin 1) (Fin 0) (Fin 0) (Fin 0) (Fin 0) (Fin 0) = Inr p"
    and pip: "PIP_ph p = Fin 2" by blast
  have h: "set_properties_from_solution R0 state0 (Fin 1) R0 (Fin 2) (Fin 1) (Fin 0) (Fin 0)
          (Fin 0) (Fin 0) (Fin 0) False False = Inr (state0\<lparr>liquid := Some p\<rparr>, ''l'')"
    by (simp add: set_properties_from_solution_def p pip)
  from phase_identification [OF h] obtain q where
    v: "V_ph q = Fin 2"
    and e: "if PIP_ph q > Fin 1 + Fin 0.00000000000001
            then ''l'' = ''l'' \<and> state0\<lparr>liquid := Some p\<rparr> = state0\<lparr>liquid := Some q\<rparr>
            else ''l'' = ''g'' \<and> state0\<lparr>liquid := Some p\<rparr> = state0\<lparr>gas := Some q\<rparr>"
    by blast
  from e have eq: "state0\<lparr>liquid := Some p\<rparr> = state0\<lparr>liquid := Some q\<rparr>"
    by (simp split: if_splits)
  from arg_cong [OF eq, of liquid] have "q = p" by simp
  with v h pip show ?thesis by blast
qed

section \<open>Two acceptable roots\<close>

text \<open>
  Claim C1, as the code has it. With two or more acceptable roots the phase tag is
  \<^verbatim>\<open>'l/g'\<close>. Unless \<^verbatim>\<open>only_g\<close> is set, the liquid record is written from the least
  acceptable root; unless \<^verbatim>\<open>only_l\<close> is set, the gas record is written from the greatest.
  A record that a flag excludes is left as it was.
\<close>

theorem two_roots_selection:
  assumes two: "2 \<le> length (good_roots (self_b s) Vs)"
    and ok: "set_from_PT R s Vs only_l only_g = Inr s'"
  shows "phase s' = Some ''l/g''
         \<and> (\<not> only_g \<longrightarrow>
              (\<exists>v. V_l s' = Some v \<and> v \<in> set (good_roots (self_b s) Vs)
                   \<and> (\<forall>w\<in>set (good_roots (self_b s) Vs). v \<le> w)))
         \<and> (\<not> only_l \<longrightarrow>
              (\<exists>v. V_g s' = Some v \<and> v \<in> set (good_roots (self_b s) Vs)
                   \<and> (\<forall>w\<in>set (good_roots (self_b s) Vs). w \<le> v)))
         \<and> (only_g \<longrightarrow> liquid s' = liquid s)
         \<and> (only_l \<longrightarrow> gas s' = gas s)"
proof -
  let ?g = "good_roots (self_b s) Vs"
  from ok obtain vl vg s1 s2 where
    vl: "py_min ?g = Inr vl" and vg: "py_max ?g = Inr vg"
    and s1: "(if \<not> only_g then
                bind_result (set_properties_of_self R s vl True False) (\<lambda>(s1, ph). Inr s1)
              else Inr s) = Inr s1"
    and s2: "(if \<not> only_l then
                bind_result (set_properties_of_self R s1 vg False True) (\<lambda>(s2, ph). Inr s2)
              else Inr s1) = Inr s2"
    and s': "s' = s2\<lparr>phase := Some ''l/g''\<rparr>"
    unfolding set_from_PT_two_roots [OF two] bind_result_eq_Inr by auto
  have least: "vl \<in> set ?g \<and> (\<forall>w\<in>set ?g. vl \<le> w)"
    using py_min_least [OF vl good_roots_not_NaN] .
  have greatest: "vg \<in> set ?g \<and> (\<forall>w\<in>set ?g. w \<le> vg)"
    using py_max_greatest [OF vg good_roots_not_NaN] .
  have liq: "if only_g then s1 = s else (\<exists>p. s1 = s\<lparr>liquid := Some p\<rparr> \<and> V_ph p = vl)"
    using s1 forced_liquid [of R s vl s1] by (auto split: if_splits)
  have gas: "if only_l then s2 = s1 else (\<exists>p. s2 = s1\<lparr>gas := Some p\<rparr> \<and> V_ph p = vg)"
    using s2 forced_gas [of R s1 vg s2] by (auto split: if_splits)
  from liq gas s' least greatest show ?thesis
    by (cases only_g; cases only_l) (auto simp: V_l_def V_g_def)
qed

theorem two_roots_selection_witness:
  "2 \<le> length (good_roots (self_b state0) [(Fin 2, Fin 0), (Fin 3, Fin 0), (Fin 0, Fin 1)])
   \<and> (\<exists>s'. set_from_PT R0 state0 [(Fin 2, Fin 0), (Fin 3, Fin 0), (Fin 0, Fin 1)] False False
              = Inr s'
           \<and> phase s' = Some ''l/g'' \<and> V_l s' = Some (Fin 2) \<and> V_g s' = Some (Fin 3))"
proof -
  let ?Vs = "[(Fin 2, Fin 0), (Fin 3, Fin 0), (Fin 0, Fin 1)]"
  have g: "good_roots (self_b state0) ?Vs = [Fin 2, Fin 3]"
    by (simp add: state0_fields good_roots_example)
  then have two: "2 \<le> length (good_roots (self_b state0) ?Vs)" by simp
  from props_root2 obtain p where
    p: "phase_properties R0 (Fin 1) R0 (Fin 2) (Fin 1) (Fin 0) (Fin 0) (Fin 0) (Fin 0) (Fin 0) = Inr p"
    by blast
  from props_root3 obtain q where
    q: "phase_properties R0 (Fin 1) R0 (Fin 3) (Fin 1) (Fin 0) (Fin 0) (Fin 0) (Fin 0) (Fin 0) = Inr q"
    by blast
  from phase_properties_fields [OF p] have vp: "V_ph p = Fin 2" by blast
  from phase_properties_fields [OF q] have vq: "V_ph q = Fin 3" by blast
  have l: "set_properties_of_self R0 state0 (Fin 2) True False = Inr (state0\<lparr>liquid := Some p\<rparr>, ''l'')"
    using set_properties_of_self_success [of state0 "Fin 1" R0 R0 "Fin 2" p True False] p
    by (simp add: state0_fields)
  have gq: "set_properties_of_self R0 (state0\<lparr>liquid := Some p\<rparr>) (Fin 3) False True =
             Inr (state0\<lparr>liquid := Some p, gas := Some q\<rparr>, ''g'')"
    using set_properties_of_self_success
      [of "state0\<lparr>liquid := Some p\<rparr>" "Fin 1" R0 R0 "Fin 3" q False True] q
    by (simp add: state0_fields)
  have ok: "set_from_PT R0 state0 ?Vs False False =
          Inr (state0\<lparr>liquid := Some p, gas := Some q, phase := Some ''l/g''\<rparr>)"
    by (simp add: set_from_PT_two_roots g min_example max_example l gq)
  from two_roots_selection [OF two ok] two ok vp vq show ?thesis
    by (simp add: V_l_def V_g_def)
qed

text \<open>
  The claim as the specification states it, with both records populated for every state,
  fails when a flag is set: with \<^verbatim>\<open>only_l\<close> the gas record of the example is absent.
\<close>

theorem two_roots_only_l_counterexample:
  "good_roots (self_b state0) [(Fin 2, Fin 0), (Fin 3, Fin 0), (Fin 0, Fin 1)] = [Fin 2, Fin 3]
   \<and> map_sum id V_l
        (set_from_PT R0 state0 [(Fin 2, Fin 0), (Fin 3, Fin 0), (Fin 0, Fin 1)] True False) =
      Inr (Some (Fin 2))
   \<and> map_sum id V_g
        (set_from_PT R0 state0 [(Fin 2, Fin 0), (Fin 3, Fin 0), (Fin 0, Fin 1)] True False) =
      Inr None"
proof -
  let ?Vs = "[(Fin 2, Fin 0), (Fin 3, Fin 0), (Fin 0, Fin 1)]"
  have g: "good_roots (self_b state0) ?Vs = [Fin 2, Fin 3]"
    by (simp add: state0_fields good_roots_example)
  from props_root2 obtain p where
    p: "phase_properties R0 (Fin 1) R0 (Fin 2) (Fin 1) (Fin 0) (Fin 0) (Fin 0) (Fin 0) (Fin 0) = Inr p"
    by blast
  from phase_properties_fields [OF p] have v: "V_ph p = Fin 2" by blast
  have l: "set_properties_of_self R0 state0 (Fin 2) True False = Inr (state0\<lparr>liquid := Some p\<rparr>, ''l'')"
    using set_properties_of_self_success [of state0 "Fin 1" R0 R0 "Fin 2" p True False] p
    by (simp add: state0_fields)
  have "set_from_PT R0 state0 ?Vs True False = Inr (state0\<lparr>liquid := Some p, phase := Some ''l/g''\<rparr>)"
    by (simp add: set_from_PT_two_roots g min_example max_example l)
  with g v show ?thesis
    by (simp add: V_l_def V_g_def state0_fields)
qed

section \<open>The critical point\<close>

text \<open>
  Claim C4. For a single-component state solved exactly at its critical temperature and
  pressure (the test \<open>at_critical_point\<close> of the source succeeds) with one acceptable root,
  the liquid and the gas record are both populated from that root, so that \<^verbatim>\<open>V_l\<close> and
  \<^verbatim>\<open>V_g\<close> both equal it, and the phase tag is \<^verbatim>\<open>'l/g'\<close>.
\<close>

theorem critical_point_both_phases:
  assumes one: "good_roots (self_b s) Vs = [v]"
    and crit: "at_critical_point s = Inr True"
    and ok: "set_from_PT R s Vs only_l only_g = Inr s'"
  shows "\<exists>p. liquid s' = Some p \<and> gas s' = Some p \<and> V_ph p = v
             \<and> V_l s' = Some v \<and> V_g s' = Some v \<and> phase s' = Some ''l/g''"
proof -
  from ok have "bind_result (set_properties_of_self R s v False False) (\<lambda>(s1, ph).
     bind_result (at_critical_point (s1\<lparr>phase := Some ph\<rparr>)) (\<lambda>critical.
     if critical then
       bind_result
         (set_properties_of_self R (s1\<lparr>phase := Some ph\<rparr>) v (ph \<noteq> ''l'') (ph \<noteq> ''g''))
         (\<lambda>(s3, ph'). Inr (s3\<lparr>phase := Some ''l/g''\<rparr>))
     else Inr (s1\<lparr>phase := Some ph\<rparr>))) = Inr s'"
    unfolding set_from_PT_one_root [OF one] .
  then have big: "bind_result (set_properties_of_self R s v False False) (\<lambda>(s1, ph).
     bind_result (at_critical_point (s1\<lparr>phase := Some ph\<rparr>)) (\<lambda>critical.
     if critical then
       bind_result
         (set_properties_of_self R (s1\<lparr>phase := Some ph\<rparr>) v (ph \<noteq> ''l'') (ph \<noteq> ''g''))
         (\<lambda>(s3, ph'). Inr (s3\<lparr>phase := Some ''l/g''\<rparr>))
     else Inr (s1\<lparr>phase := Some ph\<rparr>))) = Inr s'" .
  obtain r where r: "set_properties_of_self R s v False False = Inr r"
    using big by (cases "set_properties_of_self R s v False False") simp_all
  from big r have rest0: "(case r of (s1, ph) \<Rightarrow>
     bind_result (at_critical_point (s1\<lparr>phase := Some ph\<rparr>)) (\<lambda>critical.
     if critical then
       bind_result
         (set_properties_of_self R (s1\<lparr>phase := Some ph\<rparr>) v (ph \<noteq> ''l'') (ph \<noteq> ''g''))
         (\<lambda>(s3, ph'). Inr (s3\<lparr>phase := Some ''l/g''\<rparr>))
     else Inr (s1\<lparr>phase := Some ph\<rparr>))) = Inr s'"
    by (simp only: bind_result_Inr)
  obtain s1 ph where rp: "r = (s1, ph)" by (cases r)
  from r rp have first: "set_properties_of_self R s v False False = Inr (s1, ph)" by simp
  from set_properties_of_self_cases [OF first] obtain T P p where
    tp: "self_T s = Some T" "self_P s = Some P"
    and p: "phase_properties R T P v (self_b s) (self_delta s) (self_epsilon s)
               (self_a_alpha s) (self_da_alpha_dT s) (self_d2a_alpha_dT2 s) = Inr p"
    and vp: "V_ph p = v"
    and sel: "if PIP_ph p > Fin 1.00000000000001
              then s1 = s\<lparr>liquid := Some p\<rparr> \<and> ph = ''l''
              else s1 = s\<lparr>gas := Some p\<rparr> \<and> ph = ''g''"
    by auto
  from sel have s1: "s1 = s\<lparr>liquid := Some p\<rparr> \<and> ph = ''l'' \<or> s1 = s\<lparr>gas := Some p\<rparr> \<and> ph = ''g''"
    by (auto split: if_splits)
  then have c: "at_critical_point (s1\<lparr>phase := Some ph\<rparr>) = Inr True"
    using crit by auto
  from rest0 rp c have rest:
    "bind_result
       (set_properties_of_self R (s1\<lparr>phase := Some ph\<rparr>) v (ph \<noteq> ''l'') (ph \<noteq> ''g''))
       (\<lambda>(s3, ph'). Inr (s3\<lparr>phase := Some ''l/g''\<rparr>)) = Inr s'"
    by simp
  from s1 show ?thesis
  proof
    assume a: "s1 = s\<lparr>liquid := Some p\<rparr> \<and> ph = ''l''"
    have "set_properties_of_self R (s1\<lparr>phase := Some ph\<rparr>) v False True =
            Inr (s\<lparr>liquid := Some p, phase := Some ph, gas := Some p\<rparr>, ''g'')"
      using set_properties_of_self_success [of "s1\<lparr>phase := Some ph\<rparr>" T P R v p False True]
        tp p a by simp
    with rest a have "s' = s\<lparr>liquid := Some p, phase := Some ph, gas := Some p, phase := Some ''l/g''\<rparr>"
      by simp
    with vp show ?thesis by (simp add: V_l_def V_g_def)
  next
    assume a: "s1 = s\<lparr>gas := Some p\<rparr> \<and> ph = ''g''"
    have "set_properties_of_self R (s1\<lparr>phase := Some ph\<rparr>) v True False =
            Inr (s\<lparr>gas := Some p, phase := Some ph, liquid := Some p\<rparr>, ''l'')"
      using set_properties_of_self_success [of "s1\<lparr>phase := Some ph\<rparr>" T P R v p True False]
        tp p a by simp
    with rest a have "s' = s\<lparr>gas := Some p, phase := Some ph, liquid := Some p, phase := Some ''l/g''\<rparr>"
      by simp
    with vp show ?thesis by (simp add: V_l_def V_g_def)
  qed
qed

theorem critical_point_both_phases_witness:
  "good_roots (self_b state_critical) [(Fin 2, Fin 0), (Fin 0, Fin 1), (Fin 0, Fin 1)] = [Fin 2]
   \<and> at_critical_point state_critical = Inr True
   \<and> (\<exists>s'. set_from_PT R0 state_critical [(Fin 2, Fin 0), (Fin 0, Fin 1), (Fin 0, Fin 1)]
              False False = Inr s'
           \<and> V_l s' = Some (Fin 2) \<and> V_g s' = Some (Fin 2) \<and> phase s' = Some ''l/g'')"
proof -
  let ?Vs = "[(Fin 2, Fin 0), (Fin 0, Fin 1), (Fin 0, Fin 1)]"
  have f: "self_T state_critical = Some (Fin 1)" "self_P state_critical = Some R0"
    "self_b state_critical = Fin 1"
    "self_delta state_critical = Fin 0" "self_epsilon state_critical = Fin 0"
    "self_a_alpha state_critical = Fin 0"
    "self_da_alpha_dT state_critical = Fin 0" "self_d2a_alpha_dT2 state_critical = Fin 0"
    by (simp_all add: state_critical_def state0_def)
  have g: "good_roots (self_b state_critical) ?Vs = [Fin 2]"
    by (simp add: f good_roots_def acceptable_def py_eq_def)
  have c: "at_critical_point state_critical = Inr True"
    by (simp add: at_critical_point_def state_critical_def state0_def py_eq_attr_def py_eq_def R0_def)
  from props_root2 obtain p where
    p: "phase_properties R0 (Fin 1) R0 (Fin 2) (Fin 1) (Fin 0) (Fin 0) (Fin 0) (Fin 0) (Fin 0) = Inr p"
    and pip: "PIP_ph p = Fin 2"
    by blast
  have l: "set_properties_of_self R0 state_critical (Fin 2) False False =
             Inr (state_critical\<lparr>liquid := Some p\<rparr>, ''l'')"
    using set_properties_of_self_success [of state_critical "Fin 1" R0 R0 "Fin 2" p False False] p pip
    by (simp add: f)
  have l2: "set_properties_of_self R0 (state_critical\<lparr>liquid := Some p, phase := Some ''l''\<rparr>)
              (Fin 2) False True =
             Inr (state_critical\<lparr>liquid := Some p, phase := Some ''l'', gas := Some p\<rparr>, ''g'')"
    using set_properties_of_self_success
      [of "state_critical\<lparr>liquid := Some p, phase := Some ''l''\<rparr>" "Fin 1" R0 R0 "Fin 2" p
          False True] p
    by (simp add: f)
  have ok: "set_from_PT R0 state_critical ?Vs False False =
          Inr (state_critical\<lparr>liquid := Some p, phase := Some ''l'', gas := Some p,
                 phase := Some ''l/g''\<rparr>)"
    by (simp add: set_from_PT_one_root [OF g] l l2 c)
  from critical_point_both_phases [OF g c ok] g c ok show ?thesis
    by blast
qed

section \<open>The ideal-gas limit of the root solver\<close>

text \<open>
  Claim C5. For \<^verbatim>\<open>T > 0\<close>, \<^verbatim>\<open>P > 0\<close> and \<^verbatim>\<open>a_alpha\<close> exactly zero, the root solver
  returns \<^verbatim>\<open>b + R*T/P\<close> as its only real root, followed by two placeholders \<^verbatim>\<open>-1j\<close>; the
  result does not depend on the collaborators, so no closed-form or iterative tier runs.
\<close>

theorem ideal_gas_short_circuit:
  assumes "Fin 0 < T" and "Fin 0 < P"
  shows "volume_solutions_NR ext R T P b delta epsilon (Fin 0) =
           Inr [(b + quotient (R * T) P, Fin 0), (Fin 0, Fin (- 1)), (Fin 0, Fin (- 1))]"
proof -
  from assms(2) have "P \<noteq> Fin 0" by auto
  then show ?thesis
    by (simp add: volume_solutions_NR_def py_eq_def py_div_def)
qed

theorem ideal_gas_short_circuit_witness:
  "Fin 0 < Fin 1 \<and> Fin 0 < R0
   \<and> volume_solutions_NR ext0 R0 (Fin 1) R0 (Fin 1) (Fin 0) (Fin 0) (Fin 0) =
       Inr [(Fin 2, Fin 0), (Fin 0, Fin (- 1)), (Fin 0, Fin (- 1))]"
proof -
  have t: "Fin 0 < Fin 1" by simp
  have p: "Fin 0 < R0" by (simp add: R0_def)
  from ideal_gas_short_circuit [OF t p, of ext0 R0 "Fin 1" "Fin 0" "Fin 0"] t p
  show ?thesis by (simp add: R0_def)
qed

section \<open>Negative pressure\<close>

text \<open>
  Claim C6. In a solve specified by \<^verbatim>\<open>T\<close> and \<^verbatim>\<open>V\<close>, the pressure is computed as
  \<^verbatim>\<open>R*T/(V - b) - a_alpha/(V*V + delta*V + epsilon)\<close>. When it is at most zero the solve raises
  the \<^verbatim>\<open>ValueError\<close> for a negative pressure, with that pressure; otherwise the solve goes on
  to the phase selector with that pressure stored, and raises no such error.
\<close>

theorem negative_pressure_is_fatal:
  assumes "self_V s = Some V" and "self_P s = None" and "self_T s = Some T"
    and "a_alpha_and_derivatives ext T pure_a_alphas = Inr (a_alpha, da_alpha_dT, d2a_alpha_dT2)"
    and "py_div (R * T) (V - self_b s) = Inr q0"
    and "py_div a_alpha (V * V + self_delta s * V + self_epsilon s) = Inr q1"
  shows "if q0 - q1 \<le> Fin 0
         then solve ext R s pure_a_alphas only_l only_g full_alphas =
                Inl (NegativePressure (q0 - q1))
         else solve ext R s pure_a_alphas only_l only_g full_alphas =
                set_from_PT R
                  (s\<lparr>self_a_alpha := a_alpha, self_da_alpha_dT := da_alpha_dT,
                     self_d2a_alpha_dT2 := d2a_alpha_dT2, self_P := Some (q0 - q1)\<rparr>)
                  [(V, Fin 0), (Fin 0, Fin 1), (Fin 0, Fin 1)] only_l only_g
              \<and> (\<forall>p. solve ext R s pure_a_alphas only_l only_g full_alphas \<noteq>
                       Inl (NegativePressure p))"
  using assms
  by (simp add: solve_TV [OF assms(1-4)] set_from_PT_no_NegativePressure)


theorem negative_pressure_is_fatal_witness:
  "solve ext_attractive R0 state_TV True False False True =
     Inl (NegativePressure (Fin (8.31446261815324 - 25)))
   \<and> (\<forall>p. solve ext0 R0 state_TV True False False True \<noteq> Inl (NegativePressure p))"
proof -
  have f: "self_V state_TV = Some (Fin 2)" "self_P state_TV = None"
    "self_T state_TV = Some (Fin 1)" "self_b state_TV = Fin 1"
    "self_delta state_TV = Fin 0" "self_epsilon state_TV = Fin 0"
    by (simp_all add: state_TV_def state0_def)
  have a1: "a_alpha_and_derivatives ext_attractive (Fin 1) True = Inr (Fin 100, Fin 0, Fin 0)"
    by (simp add: ext_attractive_def ext0_def)
  have a0: "a_alpha_and_derivatives ext0 (Fin 1) True = Inr (Fin 0, Fin 0, Fin 0)"
    by (simp add: ext0_def)
  have q0: "py_div (R0 * Fin 1) (Fin 2 - self_b state_TV) = Inr R0"
    by (simp add: f py_div_def minus_pyfloat_def R0_def)
  have q1: "py_div (Fin 100)
              (Fin 2 * Fin 2 + self_delta state_TV * Fin 2 + self_epsilon state_TV) = Inr (Fin 25)"
    by (simp add: f py_div_def)
  have q1': "py_div (Fin 0)
              (Fin 2 * Fin 2 + self_delta state_TV * Fin 2 + self_epsilon state_TV) = Inr (Fin 0)"
    by (simp add: f py_div_def)
  have neg: "R0 - Fin 25 \<le> Fin 0" "R0 - Fin 25 = Fin (8.31446261815324 - 25)"
    by (simp_all add: R0_def minus_pyfloat_def)
  have pos: "\<not> R0 - Fin 0 \<le> Fin 0"
    by (simp add: R0_def minus_pyfloat_def)
  from negative_pressure_is_fatal [OF f(1) f(2) f(3) a1 q0 q1, of False False True] neg
  have 1: "solve ext_attractive R0 state_TV True False False True =
             Inl (NegativePressure (Fin (8.31446261815324 - 25)))"
    by simp
  from pos negative_pressure_is_fatal [OF f(1) f(2) f(3) a0 q0 q1', of False False True]
  have 2: "\<forall>p. solve ext0 R0 state_TV True False False True \<noteq> Inl (NegativePressure p)"
    by (auto split: if_splits)
  from 1 2 show ?thesis by blast
qed

section \<open>The choice of the inverse solver\<close>






section \<open>The guard for a vanishing discriminant\<close>

text \<open>
  With \<^verbatim>\<open>delta*delta - 4*epsilon\<close> equal to zero the inverse square root raises
  \<^verbatim>\<open>ZeroDivisionError\<close>, which the source catches: \<^verbatim>\<open>main_derivatives_and_departures\<close>
  goes on with \<^verbatim>\<open>x11 = 0.0\<close> and \<^verbatim>\<open>dH_dep_dT_l_V\<close> with \<^verbatim>\<open>x0 = 1e100\<close>. The other
  divisions are not guarded. The complex functions and the logarithm raise only
  \<^verbatim>\<open>ValueError\<close>. The first function computes the quantity as \<^verbatim>\<open>x9 - epsilon2 - epsilon2\<close>,
  the second as \<^verbatim>\<open>delta*delta - 4.0*epsilon\<close>.
\<close>

lemma math_domain_error:
  "catanh_real x = Inl e \<Longrightarrow> e = ValueError ''math domain error''"
  "clog_real x = Inl e \<Longrightarrow> e = ValueError ''math domain error''"
  "log_py x = Inl e \<Longrightarrow> e = ValueError ''math domain error''"
  by (cases x; simp split: if_splits)+

lemma main_with_zero_root:
  assumes zero: "delta * delta - (epsilon + epsilon) - (epsilon + epsilon) = Fin 0"
    and d0: "V - b \<noteq> Fin 0"
    and d1: "V * (V + delta) + epsilon \<noteq> Fin 0"
    and dP: "P \<noteq> Fin 0"
    and d19: "Fin 0.5 * (V + V + delta)
                - (Fin 0.5 * Fin 0 * (delta * delta) - (epsilon + epsilon) * Fin 0) \<noteq> Fin 0"
  shows "(\<exists>atanh_x l1 l19 dP_dT dP_dV d2P_dT2 d2P_dV2 d2P_dTdV.
            catanh_real (Fin 0 * (V + V + delta)) = Inr atanh_x
          \<and> clog_real (quotient (R * T * quotient (Fin 1) (V - b)) P) = Inr l1
          \<and> main_derivatives_and_departures R T P V b delta epsilon a_alpha da_alpha_dT
               d2a_alpha_dT2 =
              Inr (dP_dT, dP_dV, d2P_dT2, d2P_dV2, d2P_dTdV,
                   Fin 2 * Fin 0 * atanh_x * (T * da_alpha_dT - a_alpha) - R * T + P * V,
                   (- R) * l1 + da_alpha_dT * (Fin 2 * Fin 0 * atanh_x),
                   T * d2a_alpha_dT2 * (Fin 0.5 * Fin 0) * l19))
         \<or> main_derivatives_and_departures R T P V b delta epsilon a_alpha da_alpha_dT
               d2a_alpha_dT2 = Inl (ValueError ''math domain error'')"
proof -
  have x0: "py_div (Fin 1) (V - b) = Inr (quotient (Fin 1) (V - b))"
    using d0 by (simp add: py_div_def)
  have x1: "py_div (Fin 1) (V * (V + delta) + epsilon) =
              Inr (quotient (Fin 1) (V * (V + delta) + epsilon))"
    using d1 by (simp add: py_div_def)
  have x11: "except_ZeroDivisionError (pow_neg_half (Fin 0)) (FloatValue (Fin 0)) =
               Inr (FloatValue (Fin 0))"
    by (simp add: except_ZeroDivisionError_def)
  have t1: "\<And>x. py_div x P = Inr (quotient x P)"
    using dP by (simp add: py_div_def)
  have x19: "\<And>x. py_div x (Fin 0.5 * (V + V + delta)
                - (Fin 0.5 * Fin 0 * (delta * delta) - (epsilon + epsilon) * Fin 0)) =
              Inr (quotient x (Fin 0.5 * (V + V + delta)
                - (Fin 0.5 * Fin 0 * (delta * delta) - (epsilon + epsilon) * Fin 0)))"
    using d19 by (simp only: py_div_def if_False)
  note unfolded = main_derivatives_and_departures_def [of R T P V b delta epsilon a_alpha
      da_alpha_dT d2a_alpha_dT2, unfolded Let_def x0 x1 zero x11 bind_result_Inr py_number.case
      t1 x19]
  show ?thesis
  proof (cases "catanh_real (Fin 0 * (V + V + delta))")
    case (Inl e)
    with math_domain_error(1) [OF Inl] show ?thesis
      by (simp only: unfolded bind_result_Inl simp_thms)
  next
    case a: (Inr atanh_x)
    show ?thesis
    proof (cases "clog_real (quotient (R * T * quotient (Fin 1) (V - b)) P)")
      case (Inl e)
      with math_domain_error(2) [OF Inl] a show ?thesis
        by (simp only: unfolded bind_result_Inl bind_result_Inr simp_thms)
    next
      case l: (Inr l1)
      let ?x19 = "quotient
          (Fin 0.5 * (V + V + delta)
             + (Fin 0.5 * Fin 0 * (delta * delta) - (epsilon + epsilon) * Fin 0))
          (Fin 0.5 * (V + V + delta)
             - (Fin 0.5 * Fin 0 * (delta * delta) - (epsilon + epsilon) * Fin 0))"
      show ?thesis
      proof (cases "log_py (?x19 * ?x19)")
        case (Inl e)
        with math_domain_error(3) [OF Inl] a l show ?thesis
          by (simp only: unfolded bind_result_Inl bind_result_Inr simp_thms)
      next
        case (Inr l19)
        with a l show ?thesis
          by (simp only: unfolded bind_result_Inr) blast
      qed
    qed
  qed
qed


lemma dH_dep_dT_l_V_with_large_root:
  assumes zero: "self_delta s * self_delta s - Fin 4 * self_epsilon s = Fin 0"
    and liq: "liquid s = Some p"
    and temp: "self_T s = Some T"
  shows "dH_dep_dT_l_V R s =
           bind_result (catanh_real (Fin (10 ^ 100) * (V_ph p + V_ph p + self_delta s)))
             (\<lambda>atanh_x. Inr (FloatValue ((- R)
                + Fin 2 * T * Fin (10 ^ 100) * atanh_x * self_d2a_alpha_dT2 s
                + V_ph p * dP_dT_ph p)))"
  by (simp add: dH_dep_dT_l_V_def Let_def zero liq temp except_ZeroDivisionError_def as_float_def)

text \<open>
  Claim C7, with the divisions that are not guarded. Let the liquid record of a state hold
  the root \<^verbatim>\<open>V\<close>, and let \<^verbatim>\<open>delta*delta - 4*epsilon\<close> be exactly zero, in both forms in which
  the source computes it. If none of the divisors \<^verbatim>\<open>V - b\<close>, \<^verbatim>\<open>V*(V + delta) + epsilon\<close>,
  \<^verbatim>\<open>P\<close> and \<^verbatim>\<open>x14 - x18\<close> is zero, \<^verbatim>\<open>main_derivatives_and_departures\<close> raises no
  \<^verbatim>\<open>ZeroDivisionError\<close>: it returns \<^verbatim>\<open>H_dep\<close>, \<^verbatim>\<open>S_dep\<close> and \<^verbatim>\<open>Cv_dep\<close> computed with
  \<^verbatim>\<open>0.0\<close> for the inverse root, or it raises the \<^verbatim>\<open>ValueError\<close> of a logarithm or of
  \<^verbatim>\<open>catanh\<close>. The departure derivative \<^verbatim>\<open>dH_dep_dT_l_V\<close> is
  \<^verbatim>\<open>-R + 2*T*x0*catanh(x0*(V + V + delta)).real*d2a_alpha_dT2 + V*dP_dT\<close> with \<^verbatim>\<open>1e100\<close>
  for \<^verbatim>\<open>x0\<close>, and raises no \<^verbatim>\<open>ZeroDivisionError\<close> either.
\<close>

theorem zero_discriminant_guard:
  assumes zero: "self_delta s * self_delta s - Fin 4 * self_epsilon s = Fin 0"
    and zero': "self_delta s * self_delta s - (self_epsilon s + self_epsilon s)
                  - (self_epsilon s + self_epsilon s) = Fin 0"
    and liq: "liquid s = Some p"
    and temp: "self_T s = Some T"
    and d0: "V_ph p - self_b s \<noteq> Fin 0"
    and d1: "V_ph p * (V_ph p + self_delta s) + self_epsilon s \<noteq> Fin 0"
    and dP: "P \<noteq> Fin 0"
    and d19: "Fin 0.5 * (V_ph p + V_ph p + self_delta s)
                - (Fin 0.5 * Fin 0 * (self_delta s * self_delta s)
                   - (self_epsilon s + self_epsilon s) * Fin 0) \<noteq> Fin 0"
  shows "((\<exists>atanh_x l1 l19 dP_dT dP_dV d2P_dT2 d2P_dV2 d2P_dTdV.
             catanh_real (Fin 0 * (V_ph p + V_ph p + self_delta s)) = Inr atanh_x
           \<and> clog_real (quotient (R * T * quotient (Fin 1) (V_ph p - self_b s)) P) = Inr l1
           \<and> main_derivatives_and_departures R T P (V_ph p) (self_b s) (self_delta s)
                (self_epsilon s) a_alpha da_alpha_dT d2a_alpha_dT2 =
               Inr (dP_dT, dP_dV, d2P_dT2, d2P_dV2, d2P_dTdV,
                    Fin 2 * Fin 0 * atanh_x * (T * da_alpha_dT - a_alpha) - R * T + P * V_ph p,
                    (- R) * l1 + da_alpha_dT * (Fin 2 * Fin 0 * atanh_x),
                    T * d2a_alpha_dT2 * (Fin 0.5 * Fin 0) * l19))
          \<or> main_derivatives_and_departures R T P (V_ph p) (self_b s) (self_delta s)
                (self_epsilon s) a_alpha da_alpha_dT d2a_alpha_dT2 =
               Inl (ValueError ''math domain error''))
         \<and> main_derivatives_and_departures R T P (V_ph p) (self_b s) (self_delta s)
              (self_epsilon s) a_alpha da_alpha_dT d2a_alpha_dT2 \<noteq> Inl ZeroDivisionError
         \<and> dH_dep_dT_l_V R s =
             bind_result (catanh_real (Fin (10 ^ 100) * (V_ph p + V_ph p + self_delta s)))
               (\<lambda>atanh_x. Inr (FloatValue ((- R)
                  + Fin 2 * T * Fin (10 ^ 100) * atanh_x * self_d2a_alpha_dT2 s
                  + V_ph p * dP_dT_ph p)))
         \<and> dH_dep_dT_l_V R s \<noteq> Inl ZeroDivisionError"
proof -
  note m = main_with_zero_root [OF zero' d0 d1 dP d19, of R T a_alpha da_alpha_dT d2a_alpha_dT2]
  from m have mz: "main_derivatives_and_departures R T P (V_ph p) (self_b s) (self_delta s)
              (self_epsilon s) a_alpha da_alpha_dT d2a_alpha_dT2 \<noteq> Inl ZeroDivisionError"
    by auto
  note h = dH_dep_dT_l_V_with_large_root [OF zero liq temp, of R]
  have hz: "dH_dep_dT_l_V R s \<noteq> Inl ZeroDivisionError"
  proof (cases "catanh_real (Fin (10 ^ 100) * (V_ph p + V_ph p + self_delta s))")
    case (Inl e)
    with math_domain_error(1) [OF Inl] show ?thesis
      by (simp add: h)
  next
    case (Inr atanh_x)
    then show ?thesis
      by (simp add: h)
  qed
  from m mz h hz show ?thesis
    by (intro conjI)
qed

text \<open>
  The example state at the volume 2, with \<^verbatim>\<open>delta = epsilon = 0\<close>, \<^verbatim>\<open>b = 1\<close> and the second
  derivative of \<^verbatim>\<open>a_alpha\<close> set to 1, so that the term with \<^verbatim>\<open>1e100\<close> is not zero.
\<close>

theorem zero_discriminant_guard_witness:
  "acceptable (Fin 1) (Fin 2, Fin 0)
   \<and> main_derivatives_and_departures R0 (Fin 1) R0 (Fin 2) (Fin 1) (Fin 0) (Fin 0)
        (Fin 0) (Fin 0) (Fin 1) =
       Inr (R0, - R0, Fin (- 1 / 4), Fin 2 * R0, - R0, R0, Fin 0, Fin 0)
   \<and> (\<exists>p. phase_properties R0 (Fin 1) R0 (Fin 2) (Fin 1) (Fin 0) (Fin 0) (Fin 0) (Fin 0) (Fin 1)
             = Inr p
          \<and> dH_dep_dT_l_V R0 (state0\<lparr>self_d2a_alpha_dT2 := Fin 1, liquid := Some p\<rparr>) =
              Inr (FloatValue (Fin (8.31446261815324
                     + 10 ^ 100 * ln ((4 * 10 ^ 100 + 1) / (4 * 10 ^ 100 - 1))))))"
proof -
  let ?s = "\<lambda>p. state0\<lparr>self_d2a_alpha_dT2 := Fin 1, liquid := Some p\<rparr>"
  have a: "acceptable (Fin 1) (Fin 2, Fin 0)"
    by (simp add: acceptable_def py_eq_def)
  have m: "main_derivatives_and_departures R0 (Fin 1) R0 (Fin 2) (Fin 1) (Fin 0) (Fin 0)
        (Fin 0) (Fin 0) (Fin 1) =
       Inr (R0, - R0, Fin (- 1 / 4), Fin 2 * R0, - R0, R0, Fin 0, Fin 0)"
    by (simp add: evaluation)
  have "\<exists>p. phase_properties R0 (Fin 1) R0 (Fin 2) (Fin 1) (Fin 0) (Fin 0) (Fin 0) (Fin 0) (Fin 1)
             = Inr p \<and> V_ph p = Fin 2 \<and> dP_dT_ph p = R0"
    by (simp add: evaluation)
  then obtain p where
    p: "phase_properties R0 (Fin 1) R0 (Fin 2) (Fin 1) (Fin 0) (Fin 0) (Fin 0) (Fin 0) (Fin 1) = Inr p"
    and vp: "V_ph p = Fin 2" and dp: "dP_dT_ph p = R0"
    by blast
  have f: "self_delta (?s p) = Fin 0" "self_epsilon (?s p) = Fin 0" "self_b (?s p) = Fin 1"
    "self_d2a_alpha_dT2 (?s p) = Fin 1"
    by (simp_all add: state0_def)
  have zero: "self_delta (?s p) * self_delta (?s p) - Fin 4 * self_epsilon (?s p) = Fin 0"
    by (simp add: f minus_pyfloat_def)
  have zero': "self_delta (?s p) * self_delta (?s p) - (self_epsilon (?s p) + self_epsilon (?s p))
                  - (self_epsilon (?s p) + self_epsilon (?s p)) = Fin 0"
    by (simp add: f minus_pyfloat_def)
  have liq: "liquid (?s p) = Some p"
    by simp
  have temp: "self_T (?s p) = Some (Fin 1)"
    by (simp add: state0_def)
  have d0: "V_ph p - self_b (?s p) \<noteq> Fin 0"
    by (simp add: f vp minus_pyfloat_def)
  have d1: "V_ph p * (V_ph p + self_delta (?s p)) + self_epsilon (?s p) \<noteq> Fin 0"
    by (simp add: f vp)
  have dP: "R0 \<noteq> Fin 0"
    by (simp add: R0_def)
  have d19: "Fin 0.5 * (V_ph p + V_ph p + self_delta (?s p))
                - (Fin 0.5 * Fin 0 * (self_delta (?s p) * self_delta (?s p))
                   - (self_epsilon (?s p) + self_epsilon (?s p)) * Fin 0) \<noteq> Fin 0"
    by (simp add: f vp minus_pyfloat_def)
  from zero_discriminant_guard [OF zero zero' liq temp d0 d1 dP d19, of R0]
  have "dH_dep_dT_l_V R0 (?s p) =
             bind_result (catanh_real (Fin (10 ^ 100) * (V_ph p + V_ph p + self_delta (?s p))))
               (\<lambda>atanh_x. Inr (FloatValue ((- R0)
                  + Fin 2 * Fin 1 * Fin (10 ^ 100) * atanh_x * self_d2a_alpha_dT2 (?s p)
                  + V_ph p * dP_dT_ph p)))"
    by blast
  then have h: "dH_dep_dT_l_V R0 (?s p) =
              Inr (FloatValue (Fin (8.31446261815324
                     + 10 ^ 100 * ln ((4 * 10 ^ 100 + 1) / (4 * 10 ^ 100 - 1)))))"
    by (simp add: f vp dp R0_def)
  from a m p h show ?thesis by blast
qed

text \<open>
  An accepted root does not exclude the divisors that are not guarded. With \<^verbatim>\<open>b = 0.5\<close>,
  \<^verbatim>\<open>delta = -2\<close> and \<^verbatim>\<open>epsilon = 1\<close> the root \<^verbatim>\<open>V = 1\<close> is accepted and
  \<^verbatim>\<open>x1 = 1.0/(V*(V + delta) + epsilon)\<close> divides by zero; a solve at \<^verbatim>\<open>T = 1\<close>,
  \<^verbatim>\<open>P = 2*R\<close> with \<^verbatim>\<open>a_alpha = 0\<close> finds exactly this root and ends with the exception.
  With \<^verbatim>\<open>b = 1\<close>, \<^verbatim>\<open>delta = epsilon = 0\<close> and \<^verbatim>\<open>P = 0\<close> the root \<^verbatim>\<open>V = 2\<close> is accepted
  and \<^verbatim>\<open>t1 = x3*x0/P\<close> divides by zero.
\<close>

theorem zero_discriminant_counterexample:
  "acceptable (Fin (1 / 2)) (Fin 1, Fin 0)
   \<and> Fin (- 2) * Fin (- 2) - Fin 4 * Fin 1 = Fin 0
   \<and> main_derivatives_and_departures R0 (Fin 1) (Fin 2 * R0) (Fin 1) (Fin (1 / 2)) (Fin (- 2))
        (Fin 1) (Fin 0) (Fin 0) (Fin 0) = Inl ZeroDivisionError
   \<and> solve ext0 R0
        (state0\<lparr>self_P := Some (Fin 2 * R0), self_b := Fin (1 / 2), self_delta := Fin (- 2),
                self_epsilon := Fin 1\<rparr>) True False False True = Inl ZeroDivisionError
   \<and> acceptable (Fin 1) (Fin 2, Fin 0)
   \<and> Fin 0 * Fin 0 - Fin 4 * Fin 0 = Fin 0
   \<and> main_derivatives_and_departures R0 (Fin 1) (Fin 0) (Fin 2) (Fin 1) (Fin 0)
        (Fin 0) (Fin 0) (Fin 0) (Fin 0) = Inl ZeroDivisionError"
proof -
  have a: "acceptable (Fin (1 / 2)) (Fin 1, Fin 0)"
    by (simp add: acceptable_def py_eq_def)
  have z: "Fin (- 2) * Fin (- 2) - Fin 4 * Fin 1 = Fin 0"
    by (simp add: minus_pyfloat_def)
  have m: "main_derivatives_and_departures R0 (Fin 1) (Fin 2 * R0) (Fin 1) (Fin (1 / 2)) (Fin (- 2))
        (Fin 1) (Fin 0) (Fin 0) (Fin 0) = Inl ZeroDivisionError"
    by (simp add: main_derivatives_and_departures_def py_div_def minus_pyfloat_def Let_def R0_def)
  have s: "solve ext0 R0
        (state0\<lparr>self_P := Some (Fin 2 * R0), self_b := Fin (1 / 2), self_delta := Fin (- 2),
                self_epsilon := Fin 1\<rparr>) True False False True = Inl ZeroDivisionError"
    by (simp add: solve_def check_sufficient_inputs_def state0_def as_float_def ext0_def
        volume_solutions_NR_def py_eq_def py_div_def R0_def Let_def set_from_PT_def
        good_roots_def acceptable_def set_properties_of_self_def
        set_properties_from_solution_def phase_properties_def derivatives_and_departures_def
        main_derivatives_and_departures_def minus_pyfloat_def)
  have a': "acceptable (Fin 1) (Fin 2, Fin 0)"
    by (simp add: acceptable_def py_eq_def)
  have z': "Fin 0 * Fin 0 - Fin 4 * Fin 0 = Fin 0"
    by (simp add: minus_pyfloat_def)
  have m': "main_derivatives_and_departures R0 (Fin 1) (Fin 0) (Fin 2) (Fin 1) (Fin 0)
        (Fin 0) (Fin 0) (Fin 0) (Fin 0) = Inl ZeroDivisionError"
    by (simp add: evaluation)
  from a z m s a' z' m' show ?thesis by blast
qed

section \<open>A solve with the volume given\<close>






lemma to_solve_tiers [simp]:
  "to_solve (ext\<lparr>solver_tiers := tiers\<rparr>) = to_solve ext"
  by (intro ext) (simp add: to_solve_def)

lemma first_brenth_tiers [simp]:
  "first_brenth (ext\<lparr>solver_tiers := tiers\<rparr>) f xtol bounds = first_brenth ext f xtol bounds"
  by (induction bounds) (auto split: sum.splits)

lemma solve_T_candidates_tiers [simp]:
  "solve_T_candidates (ext\<lparr>solver_tiers := tiers\<rparr>) R s P V high_prec solution =
     solve_T_candidates ext R s P V high_prec solution"
  unfolding solve_T_candidates_def Let_def
  by (simp cong: sum.case_cong option.case_cong prod.case_cong if_cong)

lemma solve_T_tiers [simp]:
  "solve_T (ext\<lparr>solver_tiers := tiers\<rparr>) R s P V high_prec solution =
     solve_T ext R s P V high_prec solution"
  by (simp add: solve_T_def)







end
